theory Spec2Isabelle
  imports Main "HOL-Library.Sublist"
begin

section \<open>Values, exceptions and strings\<close>

text \<open>
  The client of \<^verbatim>\<open>fastgpt.py\<close> moves Python values between dictionaries, JSON bodies and
  dataclasses. One datatype stands for them: \<open>None\<close>, booleans, integers, strings, lists
  and dictionaries (a dictionary is the list of its items, keys pairwise different, read
  with \<open>map_of\<close>). Floating-point numbers are left out. A Python \<open>str\<close> is a
  \<open>string\<close>: the UTF-8 bytes of its text, so that the separators the code looks for
  (\<open>.\<close>, \<open>/\<close>, \<open>%\<close>) are single characters and a non-ASCII letter is several.
\<close>

datatype json =
    JNull
  | JBool bool
  | JInt int
  | JStr string
  | JList "json list"
  | JObj "(string \<times> json) list"

text \<open>Truth value of a Python object, as \<open>if x:\<close> and \<open>x and y\<close> test it.\<close>

fun truthy :: "json \<Rightarrow> bool" where
  "truthy JNull = False"
| "truthy (JBool b) = b"
| "truthy (JInt i) = (i \<noteq> 0)"
| "truthy (JStr s) = (s \<noteq> [])"
| "truthy (JList xs) = (xs \<noteq> [])"
| "truthy (JObj kvs) = (kvs \<noteq> [])"

text \<open>
  The exceptions the code raises itself (\<open>ValueError\<close>, \<open>FileNotFoundError\<close>,
  \<open>Exception\<close>), the ones Python raises on a bad subscript, call or attribute, the
  \<open>HTTPError\<close> of \<open>raise_for_status\<close>, and \<open>LibError\<close> for whatever else a library or
  the operating system raises under \<open>Exception\<close> (connection errors, \<open>OSError\<close>, a body
  that is no JSON). Each carries the text that \<open>str(e)\<close> gives, except \<open>KeyError\<close>,
  which carries the key and prints it quoted.
\<close>

datatype py_exception =
    ValueError string
  | FileNotFoundError string
  | TypeError string
  | KeyError string
  | AttributeError string
  | HTTPError string
  | LibError string
  | Exception string

fun str_exc :: "py_exception \<Rightarrow> string" where
  "str_exc (ValueError m) = m"
| "str_exc (FileNotFoundError m) = m"
| "str_exc (TypeError m) = m"
| "str_exc (KeyError k) = [CHR 0x27] @ k @ [CHR 0x27]"
| "str_exc (AttributeError m) = m"
| "str_exc (HTTPError m) = m"
| "str_exc (LibError m) = m"
| "str_exc (Exception m) = m"

text \<open>The decimal numeral of an integer, as \<open>str\<close> and an f-string print it.\<close>

definition digit_char :: "nat \<Rightarrow> char" where
  "digit_char d = char_of (48 + d)"

fun show_nat :: "nat \<Rightarrow> string" where
  "show_nat n = (if n < 10 then [digit_char n] else show_nat (n div 10) @ [digit_char (n mod 10)])"

declare show_nat.simps [simp del]

definition show_int :: "int \<Rightarrow> string" where
  "show_int i = (if i < 0 then CHR ''-'' # show_nat (nat (- i)) else show_nat (nat i))"

text \<open>
  What an f-string prints for a value: the text itself for a string, \<open>None\<close>,
  \<open>True\<close>, \<open>False\<close> and the numeral for the atoms. The text of a list or a dictionary
  (Python's \<open>repr\<close> of each element, with its quoting rules) is not computed here: it is
  the parameter \<open>repr\<close>.
\<close>

fun py_str :: "(json \<Rightarrow> string) \<Rightarrow> json \<Rightarrow> string" where
  "py_str repr JNull = ''None''"
| "py_str repr (JBool b) = (if b then ''True'' else ''False'')"
| "py_str repr (JInt i) = show_int i"
| "py_str repr (JStr s) = s"
| "py_str repr (JList xs) = repr (JList xs)"
| "py_str repr (JObj kvs) = repr (JObj kvs)"

text \<open>\<open>sep.join(xs)\<close>.\<close>

fun join :: "string \<Rightarrow> string list \<Rightarrow> string" where
  "join sep [] = []"
| "join sep [x] = x"
| "join sep (x # y # ys) = x @ sep @ join sep (y # ys)"

text \<open>\<open>sub in s\<close> for strings.\<close>

definition contains :: "string \<Rightarrow> string \<Rightarrow> bool" where
  "contains s sub = sublist sub s"

section \<open>Payload assembly of the collection operations\<close>

text \<open>
  The options that \<open>create_text_collection\<close> and \<open>create_file_collection\<close> share, with
  the types of their signatures: \<open>Optional[T]\<close> is \<open>T option\<close>.
\<close>

record ingest_opts =
  dataset_id :: string
  training_type :: string
  parent_id :: "string option"
  index_prefix_title :: "bool option"
  custom_pdf_parse :: bool
  auto_indexes :: "bool option"
  image_index :: "bool option"
  chunk_setting_mode :: string
  chunk_split_mode :: string
  chunk_size :: int
  index_size :: int
  chunk_splitter :: string
  qa_prompt :: string
  tags :: "string list option"
  create_time :: "string option"
  metadata :: "(string \<times> json) list option"

record text_args = ingest_opts +
  text_arg :: string
  name :: string

type_synonym payload = "string \<rightharpoonup> json"

definition opt_str :: "string option \<Rightarrow> json" where
  "opt_str s = (case s of None \<Rightarrow> JNull | Some v \<Rightarrow> JStr v)"

text \<open>\<open>metadata or {}\<close>: \<open>None\<close> and the empty dictionary both give \<open>{}\<close>.\<close>

definition metadata_or_empty :: "(string \<times> json) list option \<Rightarrow> json" where
  "metadata_or_empty md = (case md of None \<Rightarrow> JObj [] | Some kvs \<Rightarrow> JObj kvs)"

text \<open>
  The statements of lines 271 to 290, which lines 447 to 466 repeat on \<open>form_metadata\<close>:
  each \<open>if\<close> stores one key or leaves the dictionary as it is.
\<close>

definition add_custom_chunking :: "('a ingest_opts_scheme) \<Rightarrow> payload \<Rightarrow> payload" where
  "add_custom_chunking a p =
     (if chunk_setting_mode a = ''custom'' then
        (let p1 = p(''chunkSplitMode'' \<mapsto> JStr (chunk_split_mode a));
             p2 = p1(''chunkSize'' \<mapsto> JInt (chunk_size a));
             p3 = p2(''indexSize'' \<mapsto> JInt (index_size a))
         in if chunk_splitter a \<noteq> [] then p3(''chunkSplitter'' \<mapsto> JStr (chunk_splitter a)) else p3)
      else p)"

definition add_qa_prompt :: "('a ingest_opts_scheme) \<Rightarrow> payload \<Rightarrow> payload" where
  "add_qa_prompt a p =
     (if training_type a = ''qa'' \<and> qa_prompt a \<noteq> [] then p(''qaPrompt'' \<mapsto> JStr (qa_prompt a)) else p)"

definition add_flag :: "string \<Rightarrow> bool option \<Rightarrow> payload \<Rightarrow> payload" where
  "add_flag k v p = (case v of None \<Rightarrow> p | Some b \<Rightarrow> p(k \<mapsto> JBool b))"

definition add_tags :: "('a ingest_opts_scheme) \<Rightarrow> payload \<Rightarrow> payload" where
  "add_tags a p =
     (case tags a of None \<Rightarrow> p
      | Some ts \<Rightarrow> if ts \<noteq> [] then p(''tags'' \<mapsto> JList (map JStr ts)) else p)"

definition add_create_time :: "('a ingest_opts_scheme) \<Rightarrow> payload \<Rightarrow> payload" where
  "add_create_time a p =
     (case create_time a of None \<Rightarrow> p
      | Some t \<Rightarrow> if t \<noteq> [] then p(''createTime'' \<mapsto> JStr t) else p)"

definition conditional_fields :: "('a ingest_opts_scheme) \<Rightarrow> payload \<Rightarrow> payload" where
  "conditional_fields a p =
     add_create_time a
       (add_tags a
         (add_flag ''imageIndex'' (image_index a)
           (add_flag ''autoIndexes'' (auto_indexes a)
             (add_flag ''indexPrefixTitle'' (index_prefix_title a)
               (add_qa_prompt a (add_custom_chunking a p))))))"

text \<open>The dictionary literal of lines 260 to 269, then the conditional fields.\<close>

definition text_payload_init :: "text_args \<Rightarrow> payload" where
  "text_payload_init a =
     [''text'' \<mapsto> JStr (text_arg a),
      ''datasetId'' \<mapsto> JStr (dataset_id a),
      ''name'' \<mapsto> JStr (name a),
      ''parentId'' \<mapsto> opt_str (parent_id a),
      ''trainingType'' \<mapsto> JStr (training_type a),
      ''customPdfParse'' \<mapsto> JBool (custom_pdf_parse a),
      ''chunkSettingMode'' \<mapsto> JStr (chunk_setting_mode a),
      ''metadata'' \<mapsto> metadata_or_empty (metadata a)]"

definition text_payload :: "text_args \<Rightarrow> payload" where
  "text_payload a = conditional_fields a (text_payload_init a)"

section \<open>Response models\<close>

text \<open>
  The dataclasses \<open>ModelConfig\<close> and \<open>DatasetDetail\<close>. A dataclass does not check the
  annotations of its fields, so every field holds whatever value the dictionary gave.
  \<open>name\<close>, \<open>id\<close> and \<open>type\<close> are taken already: the fields are \<open>model_name\<close>,
  \<open>dd_id\<close>, \<open>dd_type\<close> and \<open>dd_name\<close>.
\<close>

record ModelConfig =
  model :: json
  model_name :: json
  charsPointsPrice :: json
  defaultToken :: json

record DatasetDetail =
  dd_id :: json
  parentId :: json
  dd_type :: json
  dd_name :: json
  avatar :: json
  intro :: json
  status :: json
  permission :: json
  vectorModel :: ModelConfig
  agentModel :: ModelConfig
  canWrite :: json
  isOwner :: json

text \<open>\<open>d.get(k, default)\<close> on the items of a dictionary.\<close>

definition dict_get :: "(string \<times> json) list \<Rightarrow> string \<Rightarrow> json \<Rightarrow> json" where
  "dict_get kvs k dflt = (case map_of kvs k of None \<Rightarrow> dflt | Some v \<Rightarrow> v)"

definition type_name :: "json \<Rightarrow> string" where
  "type_name v =
     (case v of JNull \<Rightarrow> ''NoneType'' | JBool _ \<Rightarrow> ''bool'' | JInt _ \<Rightarrow> ''int''
      | JStr _ \<Rightarrow> ''str'' | JList _ \<Rightarrow> ''list'' | JObj _ \<Rightarrow> ''dict'')"

definition no_attribute :: "json \<Rightarrow> string \<Rightarrow> py_exception" where
  "no_attribute v attr =
     AttributeError ([CHR 0x27] @ type_name v @ [CHR 0x27] @ '' object has no attribute ''
                     @ [CHR 0x27] @ attr @ [CHR 0x27])"

text \<open>
  \<open>ModelConfig(**d)\<close>: the generated \<open>__init__\<close> takes exactly the four fields, none with
  a default. A key that is no field, a field that is missing, and a \<open>d\<close> that is no
  dictionary each raise \<open>TypeError\<close> (the interpreter's wording of the message is
  shortened).
\<close>

definition ModelConfig_fields :: "string list" where
  "ModelConfig_fields = [''model'', ''name'', ''charsPointsPrice'', ''defaultToken'']"

definition ModelConfig_kwargs :: "json \<Rightarrow> py_exception + ModelConfig" where
  "ModelConfig_kwargs d =
     (case d of
        JObj kvs \<Rightarrow>
          if list_ex (\<lambda>k. k \<notin> set ModelConfig_fields) (map fst kvs)
          then Inl (TypeError ''unexpected keyword argument'')
          else (case (map_of kvs ''model'', map_of kvs ''name'',
                      map_of kvs ''charsPointsPrice'', map_of kvs ''defaultToken'') of
                  (Some m, Some n, Some c, Some t) \<Rightarrow>
                    Inr \<lparr>model = m, model_name = n, charsPointsPrice = c, defaultToken = t\<rparr>
                | _ \<Rightarrow> Inl (TypeError ''missing required positional arguments''))
      | _ \<Rightarrow> Inl (TypeError ''argument after ** must be a mapping''))"

text \<open>\<open>DatasetDetail.from_dict\<close>, lines 51 to 67; the arguments are evaluated in order.\<close>

definition from_dict :: "json \<Rightarrow> py_exception + DatasetDetail" where
  "from_dict data =
     (case data of
        JObj kvs \<Rightarrow>
          (case ModelConfig_kwargs (dict_get kvs ''vectorModel'' (JObj [])) of
             Inl e \<Rightarrow> Inl e
           | Inr vm \<Rightarrow>
               (case ModelConfig_kwargs (dict_get kvs ''agentModel'' (JObj [])) of
                  Inl e \<Rightarrow> Inl e
                | Inr am \<Rightarrow>
                    Inr \<lparr>dd_id = dict_get kvs ''_id'' (JStr []),
                         parentId = dict_get kvs ''parentId'' JNull,
                         dd_type = dict_get kvs ''type'' (JStr ''dataset''),
                         dd_name = dict_get kvs ''name'' (JStr []),
                         avatar = dict_get kvs ''avatar'' (JStr []),
                         intro = dict_get kvs ''intro'' (JStr []),
                         status = dict_get kvs ''status'' (JStr []),
                         permission = dict_get kvs ''permission'' (JStr []),
                         vectorModel = vm,
                         agentModel = am,
                         canWrite = dict_get kvs ''canWrite'' (JBool False),
                         isOwner = dict_get kvs ''isOwner'' (JBool False)\<rparr>))
      | _ \<Rightarrow> Inl (no_attribute data ''get''))"

section \<open>The transport layer\<close>

text \<open>
  What the \<open>requests\<close> library is asked and what it answers. A response carries its HTTP
  status, reason and URL, its bytes, and what \<open>response.json()\<close> does on it: the parsed
  value, or the exception of a body that is no JSON.
\<close>

record http_request =
  req_method :: string
  req_url :: string
  req_headers :: "(string \<times> string) list"
  req_json :: "payload option"
  req_params :: "(string \<times> string) list option"

record http_response =
  status_code :: nat
  reason :: string
  resp_url :: string
  content :: string
  json_result :: "py_exception + json"

text \<open>
  \<open>Response.raise_for_status\<close>: a status from 400 to 599 raises \<open>HTTPError\<close>, any other
  status passes.
\<close>

definition raise_for_status :: "http_response \<Rightarrow> py_exception option" where
  "raise_for_status r =
     (if 400 \<le> status_code r \<and> status_code r < 500 then
        Some (HTTPError (show_nat (status_code r) @ '' Client Error: '' @ reason r
                         @ '' for url: '' @ resp_url r))
      else if 500 \<le> status_code r \<and> status_code r < 600 then
        Some (HTTPError (show_nat (status_code r) @ '' Server Error: '' @ reason r
                         @ '' for url: '' @ resp_url r))
      else None)"

text \<open>
  The upload of \<open>create_file_collection\<close>: the URL, the headers, the name and the path
  of the file in the field \<open>file\<close>, and the metadata of the field \<open>data\<close> (the dictionary
  that \<open>json.dumps\<close> is given).
\<close>

record upload_request =
  up_url :: string
  up_headers :: "(string \<times> string) list"
  up_filename :: string
  up_path :: string
  up_data :: payload

text \<open>
  Everything outside the program that a call depends on: the answers of the network, of
  the temporary-file module and of the file system, the order in which the set
  \<open>ALLOWED_EXTENSIONS\<close> is iterated (it changes with the hash seed of the process), and
  \<open>repr\<close> of a list or dictionary. An answer is an exception (\<open>Inl\<close>, or \<open>Some\<close> where
  nothing is returned) or a value. Three parts of the standard library are answers too,
  each asked only outside plain text: the checks that \<open>urlsplit\<close> makes on a host with
  brackets or non-ASCII characters (address syntax, NFKC normalisation), the decoding
  with \<open>errors='replace'\<close> of bytes that are not UTF-8, and \<open>str.lower\<close> of a text with
  non-ASCII characters.
\<close>

record env =
  requests_request :: "http_request \<Rightarrow> py_exception + http_response"
  requests_get :: "string \<Rightarrow> py_exception + http_response"
  requests_post :: "upload_request \<Rightarrow> py_exception + http_response"
  named_temporary_file :: "string \<Rightarrow> py_exception + string"
  tmp_write :: "string \<Rightarrow> string \<Rightarrow> py_exception option"
  open_rb :: "string \<Rightarrow> py_exception option"
  os_unlink :: "string \<Rightarrow> py_exception option"
  ext_order :: "string list"
  py_repr :: "json \<Rightarrow> string"
  host_check :: "string \<Rightarrow> py_exception option"
  utf8_replace :: "string \<Rightarrow> string"
  unicode_lower :: "string \<Rightarrow> string"

text \<open>The client object: \<open>__init__\<close>, lines 121 to 131.\<close>

record client =
  base_url :: string
  headers :: "(string \<times> string) list"

definition rstrip_slash :: "string \<Rightarrow> string" where
  "rstrip_slash s = rev (dropWhile (\<lambda>c. c = CHR ''/'') (rev s))"

definition FastGPTKnowledgeBase :: "string \<Rightarrow> string \<Rightarrow> client" where
  "FastGPTKnowledgeBase url api_key =
     \<lparr>base_url = rstrip_slash url,
      headers = [(''Authorization'', ''Bearer '' @ api_key),
                 (''Content-Type'', ''application/json'')]\<rparr>"

text \<open>
  Lines 153 and 154 of \<open>_request\<close>: \<open>res_json.get('code')\<close> must be truthy and differ from
  200 and 201 for the error to be raised; a missing code is \<open>None\<close>.
\<close>

definition check_code :: "(json \<Rightarrow> string) \<Rightarrow> json \<Rightarrow> py_exception + json" where
  "check_code repr res_json =
     (case res_json of
        JObj kvs \<Rightarrow>
          (let code = dict_get kvs ''code'' JNull in
           if truthy code \<and> code \<noteq> JInt 200 \<and> code \<noteq> JInt 201
           then Inl (Exception (''FastGPT API Error: '' @ py_str repr (dict_get kvs ''message'' JNull)))
           else Inr res_json)
      | _ \<Rightarrow> Inl (no_attribute res_json ''get''))"

text \<open>The body of the \<open>try\<close> of \<open>_request\<close>, lines 148 to 156.\<close>

definition request_try :: "env \<Rightarrow> http_request \<Rightarrow> py_exception + json" where
  "request_try ev rq =
     (case requests_request ev rq of
        Inl e \<Rightarrow> Inl e
      | Inr response \<Rightarrow>
          (case raise_for_status response of
             Some e \<Rightarrow> Inl e
           | None \<Rightarrow>
               (case json_result response of
                  Inl e \<Rightarrow> Inl e
                | Inr res_json \<Rightarrow> check_code (py_repr ev) res_json)))"

text \<open>
  \<open>_request\<close>, lines 145 to 158: every exception of the body is replaced by an
  \<open>Exception\<close> whose text starts with \<open>Request Failed: \<close>.
\<close>

definition request :: "client \<Rightarrow> env \<Rightarrow> string \<Rightarrow> string \<Rightarrow> payload option
    \<Rightarrow> (string \<times> string) list option \<Rightarrow> py_exception + json" where
  "request kb ev method endpoint js params =
     (case request_try ev \<lparr>req_method = method, req_url = base_url kb @ endpoint,
                            req_headers = headers kb, req_json = js, req_params = params\<rparr> of
        Inl e \<Rightarrow> Inl (Exception (''Request Failed: '' @ str_exc e))
      | Inr res_json \<Rightarrow> Inr res_json)"

definition post :: "client \<Rightarrow> env \<Rightarrow> string \<Rightarrow> payload \<Rightarrow> py_exception + json" where
  "post kb ev endpoint json_data = request kb ev ''POST'' endpoint (Some json_data) None"

definition get :: "client \<Rightarrow> env \<Rightarrow> string \<Rightarrow> (string \<times> string) list \<Rightarrow> py_exception + json" where
  "get kb ev endpoint params = request kb ev ''GET'' endpoint None (Some params)"

text \<open>\<open>res['data']\<close> on what \<open>_request\<close> returned.\<close>

definition subscript :: "json \<Rightarrow> string \<Rightarrow> py_exception + json" where
  "subscript v k =
     (case v of
        JObj kvs \<Rightarrow> (case map_of kvs k of None \<Rightarrow> Inl (KeyError k) | Some x \<Rightarrow> Inr x)
      | JStr _ \<Rightarrow> Inl (TypeError ''string indices must be integers'')
      | JList _ \<Rightarrow> Inl (TypeError ''list indices must be integers or slices, not str'')
      | _ \<Rightarrow> Inl (TypeError ([CHR 0x27] @ type_name v @ [CHR 0x27] @ '' object is not subscriptable'')))"

text \<open>\<open>create_text_collection\<close>, lines 235 to 294, and \<open>get_dataset_detail\<close>.\<close>

definition create_text_collection :: "client \<Rightarrow> env \<Rightarrow> text_args \<Rightarrow> py_exception + json" where
  "create_text_collection kb ev a =
     (case post kb ev ''/core/dataset/collection/create/text'' (text_payload a) of
        Inl e \<Rightarrow> Inl e
      | Inr res \<Rightarrow> subscript res ''data'')"

definition get_dataset_detail :: "client \<Rightarrow> env \<Rightarrow> string \<Rightarrow> py_exception + DatasetDetail" where
  "get_dataset_detail kb ev did =
     (case get kb ev ''/core/dataset/detail'' [(''id'', did)] of
        Inl e \<Rightarrow> Inl e
      | Inr res \<Rightarrow> (case subscript res ''data'' of Inl e \<Rightarrow> Inl e | Inr d \<Rightarrow> from_dict d))"

section \<open>Resolving the source of a file\<close>

text \<open>
  The functions of the standard library that \<open>create_file_collection\<close> calls on the
  source reference, as their documentation describes them on UTF-8 text:
  \<open>str.lower\<close>, \<open>os.path.basename\<close> of a POSIX path, \<open>urllib.parse.unquote\<close>,
  \<open>urllib.parse.quote\<close> and the \<open>path\<close> of \<open>urllib.parse.urlparse\<close>. Each is computed
  here on plain text and hands the rest to the environment: \<open>lower\<close> a text with
  non-ASCII characters, \<open>unquote\<close> the bytes of escapes that are not UTF-8, and
  \<open>urlparse_path\<close> a host with paired brackets or non-ASCII characters.
\<close>

definition lower_char :: "char \<Rightarrow> char" where
  "lower_char c =
     (if 65 \<le> (of_char c :: nat) \<and> (of_char c :: nat) \<le> 90 then char_of ((of_char c :: nat) + 32) else c)"

definition is_ascii :: "string \<Rightarrow> bool" where
  "is_ascii s = list_all (\<lambda>c. (of_char c :: nat) < 128) s"

definition lower :: "env \<Rightarrow> string \<Rightarrow> string" where
  "lower ev s = (if is_ascii s then map lower_char s else unicode_lower ev s)"

definition after_last :: "char \<Rightarrow> string \<Rightarrow> string" where
  "after_last c s = rev (takeWhile (\<lambda>x. x \<noteq> c) (rev s))"

definition basename :: "string \<Rightarrow> string" where
  "basename p = after_last (CHR ''/'') p"

definition hex_val :: "char \<Rightarrow> nat option" where
  "hex_val c =
     (let n = (of_char c :: nat) in
      if 48 \<le> n \<and> n \<le> 57 then Some (n - 48)
      else if 65 \<le> n \<and> n \<le> 70 then Some (n - 55)
      else if 97 \<le> n \<and> n \<le> 102 then Some (n - 87)
      else None)"

text \<open>
  \<open>unquote_to_bytes\<close>: an escape of \<open>%\<close> and two hexadecimal digits becomes the byte it
  names, everything else stays.
\<close>

fun unquote_to_bytes :: "string \<Rightarrow> string" where
  "unquote_to_bytes (c # h1 # h2 # rest) =
     (case (c = CHR ''%'', hex_val h1, hex_val h2) of
        (True, Some a, Some b) \<Rightarrow> char_of (16 * a + b) # unquote_to_bytes rest
      | _ \<Rightarrow> c # unquote_to_bytes (h1 # h2 # rest))"
| "unquote_to_bytes s = s"

text \<open>
  Well-formed UTF-8: \<open>n\<close> continuation bytes are still due, the next of them between
  \<open>lo\<close> and \<open>hi\<close> (overlong forms, surrogates and code points beyond U+10FFFF are
  excluded by the bounds on the first continuation byte).
\<close>

fun utf8_from :: "nat \<Rightarrow> nat \<Rightarrow> nat \<Rightarrow> nat list \<Rightarrow> bool" where
  "utf8_from n lo hi [] = (n = 0)"
| "utf8_from n lo hi (b # bs) =
     (if n = 0 then
        (if b < 0x80 then utf8_from 0 0x80 0xBF bs
         else if 0xC2 \<le> b \<and> b \<le> 0xDF then utf8_from 1 0x80 0xBF bs
         else if b = 0xE0 then utf8_from 2 0xA0 0xBF bs
         else if 0xE1 \<le> b \<and> b \<le> 0xEC then utf8_from 2 0x80 0xBF bs
         else if b = 0xED then utf8_from 2 0x80 0x9F bs
         else if 0xEE \<le> b \<and> b \<le> 0xEF then utf8_from 2 0x80 0xBF bs
         else if b = 0xF0 then utf8_from 3 0x90 0xBF bs
         else if 0xF1 \<le> b \<and> b \<le> 0xF3 then utf8_from 3 0x80 0xBF bs
         else if b = 0xF4 then utf8_from 3 0x80 0x8F bs
         else False)
      else lo \<le> b \<and> b \<le> hi \<and> utf8_from (n - 1) 0x80 0xBF bs)"

definition valid_utf8 :: "string \<Rightarrow> bool" where
  "valid_utf8 s = utf8_from 0 0x80 0xBF (map of_char s)"

text \<open>
  \<open>unquote(s)\<close>: a text without \<open>%\<close> is returned as it is; otherwise the escapes are
  decoded to bytes and the bytes read as UTF-8 with \<open>errors='replace'\<close>, which changes
  nothing when they are well-formed.
\<close>

definition unquote :: "env \<Rightarrow> string \<Rightarrow> string" where
  "unquote ev s =
     (if CHR ''%'' \<notin> set s then s
      else (let b = unquote_to_bytes s in if valid_utf8 b then b else utf8_replace ev b))"

definition always_safe :: "char \<Rightarrow> bool" where
  "always_safe c =
     (let n = (of_char c :: nat) in
      (48 \<le> n \<and> n \<le> 57) \<or> (65 \<le> n \<and> n \<le> 90) \<or> (97 \<le> n \<and> n \<le> 122)
      \<or> c = CHR ''_'' \<or> c = CHR ''.'' \<or> c = CHR ''-'' \<or> c = CHR ''~'')"

definition hex_digit :: "nat \<Rightarrow> char" where
  "hex_digit d = (if d < 10 then char_of (48 + d) else char_of (55 + d))"

definition percent :: "char \<Rightarrow> string" where
  "percent c = [CHR ''%'', hex_digit ((of_char c :: nat) div 16), hex_digit ((of_char c :: nat) mod 16)]"

text \<open>\<open>quote(s, safe=safe)\<close>: letters, digits and \<open>_.-~\<close> are never quoted.\<close>

definition quote :: "string \<Rightarrow> string \<Rightarrow> string" where
  "quote safe s = concat (map (\<lambda>c. if always_safe c \<or> c \<in> set safe then [c] else percent c) s)"

text \<open>
  The \<open>path\<close> of \<open>urlparse(url)\<close> for a string that starts with \<open>http://\<close> or
  \<open>https://\<close>: tabs and line breaks are removed, the host ends at the first \<open>/\<close>,
  \<open>?\<close> or \<open>#\<close>, then the fragment, the query and the parameters of the last segment
  are cut off. A host with one bracket and not the other raises \<open>ValueError\<close>; a
  host with both, or with a non-ASCII character, passes the checks of the environment.
\<close>

definition strip_unsafe :: "string \<Rightarrow> string" where
  "strip_unsafe s = filter (\<lambda>c. c \<noteq> CHR 0x09 \<and> c \<noteq> CHR 0x0A \<and> c \<noteq> CHR 0x0D) s"

definition host_char :: "char \<Rightarrow> bool" where
  "host_char c = (c \<noteq> CHR ''/'' \<and> c \<noteq> CHR ''?'' \<and> c \<noteq> CHR ''#'')"

definition split_params :: "string \<Rightarrow> string" where
  "split_params u =
     (let seg = after_last (CHR ''/'') u
      in take (length u - length seg) u @ takeWhile (\<lambda>c. c \<noteq> CHR '';'') seg)"

definition urlparse_path :: "env \<Rightarrow> string \<Rightarrow> py_exception + string" where
  "urlparse_path ev url0 =
     (let url = strip_unsafe url0;
          rest = drop 3 (dropWhile (\<lambda>c. c \<noteq> CHR '':'') url);
          netloc = takeWhile host_char rest;
          u1 = dropWhile host_char rest;
          path = split_params (takeWhile (\<lambda>c. c \<noteq> CHR ''?'') (takeWhile (\<lambda>c. c \<noteq> CHR ''#'') u1))
      in if (CHR ''['' \<in> set netloc) \<noteq> (CHR '']'' \<in> set netloc)
         then Inl (ValueError ''Invalid IPv6 URL'')
         else if CHR ''['' \<in> set netloc \<or> \<not> is_ascii netloc
         then (case host_check ev netloc of Some e \<Rightarrow> Inl e | None \<Rightarrow> Inr path)
         else Inr path)"

section \<open>File ingestion\<close>

record file_args = ingest_opts +
  file_path :: string
  name_opt :: "string option"

text \<open>
  The part of the world a call can change: the paths that exist on disk, and the
  requests sent so far, oldest first.
\<close>

datatype net_event = Download string | Upload upload_request

record world =
  files :: "string set"
  net_log :: "net_event list"

definition ALLOWED_EXTENSIONS :: "string set" where
  "ALLOWED_EXTENSIONS = {''pdf'', ''xlsx'', ''pptx'', ''docx'', ''md'', ''txt''}"

text \<open>The order of iteration of a set lists each element once.\<close>

definition wf_env :: "env \<Rightarrow> bool" where
  "wf_env ev = (distinct (ext_order ev) \<and> set (ext_order ev) = ALLOWED_EXTENSIONS)"

definition is_url :: "string \<Rightarrow> bool" where
  "is_url p = (prefix ''http://'' p \<or> prefix ''https://'' p)"

text \<open>Lines 399 and 425: the text after the last dot, in lower case, or the empty string.\<close>

definition file_ext_of :: "env \<Rightarrow> string \<Rightarrow> string" where
  "file_ext_of ev fn = (if CHR ''.'' \<in> set fn then lower ev (after_last (CHR ''.'') fn) else [])"

text \<open>
  The messages of lines 401 to 404 and 420. The three Chinese phrases are given by
  their UTF-8 bytes: "unsupported file format: ", "only the following formats are
  allowed: " and "file does not exist: ".
\<close>

definition msg_unsupported :: string where
  "msg_unsupported =
     [CHR 0xE4, CHR 0xB8, CHR 0x8D, CHR 0xE6, CHR 0x94, CHR 0xAF, CHR 0xE6, CHR 0x8C, CHR 0x81,
      CHR 0xE7, CHR 0x9A, CHR 0x84, CHR 0xE6, CHR 0x96, CHR 0x87, CHR 0xE4, CHR 0xBB, CHR 0xB6,
      CHR 0xE6, CHR 0xA0, CHR 0xBC, CHR 0xE5, CHR 0xBC, CHR 0x8F, CHR 0x3A, CHR 0x20]"

definition msg_allowed :: string where
  "msg_allowed =
     [CHR 0xE4, CHR 0xBB, CHR 0x85, CHR 0xE5, CHR 0x85, CHR 0x81, CHR 0xE8, CHR 0xAE, CHR 0xB8,
      CHR 0xE4, CHR 0xBB, CHR 0xA5, CHR 0xE4, CHR 0xB8, CHR 0x8B, CHR 0xE6, CHR 0xA0, CHR 0xBC,
      CHR 0xE5, CHR 0xBC, CHR 0x8F, CHR 0x3A, CHR 0x20]"

definition msg_not_found :: string where
  "msg_not_found =
     [CHR 0xE6, CHR 0x96, CHR 0x87, CHR 0xE4, CHR 0xBB, CHR 0xB6, CHR 0xE4, CHR 0xB8, CHR 0x8D,
      CHR 0xE5, CHR 0xAD, CHR 0x98, CHR 0xE5, CHR 0x9C, CHR 0xA8, CHR 0x3A, CHR 0x20]"

definition unsupported_format :: "env \<Rightarrow> string \<Rightarrow> py_exception" where
  "unsupported_format ev file_ext =
     ValueError (msg_unsupported @ file_ext @ ''. '' @ msg_allowed @ join '', '' (ext_order ev))"

definition not_found :: "string \<Rightarrow> py_exception" where
  "not_found p = FileNotFoundError (msg_not_found @ p)"

text \<open>
  The branch of a URL, lines 394 to 416. The result is the exception raised or the pair
  \<open>(actual_file_path, filename)\<close>, then the variable \<open>temp_file_path\<close> and the world as
  the branch leaves them. \<open>NamedTemporaryFile\<close> answers with the directory and the random
  part of a new name, to which it appends the suffix; the file then exists (\<open>delete=False\<close>).
  \<open>temp_file_path\<close> is assigned after the write (line 413).
\<close>

definition acquire_url :: "env \<Rightarrow> string \<Rightarrow> world
    \<Rightarrow> (py_exception + string \<times> string) \<times> string option \<times> world" where
  "acquire_url ev fp w =
     (case urlparse_path ev fp of
        Inl e \<Rightarrow> (Inl e, None, w)
      | Inr path \<Rightarrow>
          (let url_filename = basename (unquote ev path);
               file_ext = file_ext_of ev url_filename
           in if file_ext \<notin> ALLOWED_EXTENSIONS then (Inl (unsupported_format ev file_ext), None, w)
              else
                (let w1 = w\<lparr>net_log := net_log w @ [Download fp]\<rparr> in
                 case requests_get ev fp of
                   Inl e \<Rightarrow> (Inl e, None, w1)
                 | Inr response \<Rightarrow>
                     (case raise_for_status response of
                        Some e \<Rightarrow> (Inl e, None, w1)
                      | None \<Rightarrow>
                          (case named_temporary_file ev (CHR ''.'' # file_ext) of
                             Inl e \<Rightarrow> (Inl e, None, w1)
                           | Inr stem \<Rightarrow>
                               (let tmp = stem @ CHR ''.'' # file_ext;
                                    w2 = w1\<lparr>files := insert tmp (files w1)\<rparr>
                                in case tmp_write ev tmp (content response) of
                                     Some e \<Rightarrow> (Inl e, None, w2)
                                   | None \<Rightarrow> (Inr (tmp, url_filename), Some tmp, w2)))))))"

text \<open>The branch of a local path, lines 418 to 432.\<close>

definition acquire_local :: "env \<Rightarrow> string \<Rightarrow> world
    \<Rightarrow> (py_exception + string \<times> string) \<times> string option \<times> world" where
  "acquire_local ev fp w =
     (if fp \<notin> files w then (Inl (not_found fp), None, w)
      else
        (let filename = basename fp;
             file_ext = file_ext_of ev filename
         in if file_ext \<notin> ALLOWED_EXTENSIONS then (Inl (unsupported_format ev file_ext), None, w)
            else (Inr (fp, filename), None, w)))"

text \<open>
  The display name that the two branches derive from the source reference: lines 395
  and 396 for a URL, line 422 for a local path.
\<close>

definition display_name :: "env \<Rightarrow> string \<Rightarrow> py_exception + string" where
  "display_name ev fp =
     (if is_url fp
      then (case urlparse_path ev fp of Inl e \<Rightarrow> Inl e | Inr path \<Rightarrow> Inr (basename (unquote ev path)))
      else Inr (basename fp))"

text \<open>Line 435: \<open>name if name else filename\<close>, percent-encoded with \<open>safe=''\<close>.\<close>

definition chosen_name :: "string option \<Rightarrow> string \<Rightarrow> string" where
  "chosen_name nm filename = (case nm of None \<Rightarrow> filename | Some n \<Rightarrow> if n \<noteq> [] then n else filename)"

definition encoded_filename :: "string option \<Rightarrow> string \<Rightarrow> string" where
  "encoded_filename nm filename = quote [] (chosen_name nm filename)"

text \<open>Lines 438 to 466.\<close>

definition form_metadata_init :: "file_args \<Rightarrow> payload" where
  "form_metadata_init a =
     [''datasetId'' \<mapsto> JStr (dataset_id a),
      ''parentId'' \<mapsto> opt_str (parent_id a),
      ''trainingType'' \<mapsto> JStr (training_type a),
      ''customPdfParse'' \<mapsto> JBool (custom_pdf_parse a),
      ''chunkSettingMode'' \<mapsto> JStr (chunk_setting_mode a),
      ''metadata'' \<mapsto> metadata_or_empty (metadata a)]"

definition form_metadata :: "file_args \<Rightarrow> payload" where
  "form_metadata a = conditional_fields a (form_metadata_init a)"

text \<open>
  Lines 482 to 485: the nested field, and when reading it raises anything, the payload
  \<open>data\<close> itself (whose reading may raise in turn).
\<close>

definition collection_id_of :: "json \<Rightarrow> py_exception + json" where
  "collection_id_of res_json =
     (case subscript res_json ''data'' of
        Inl _ \<Rightarrow> subscript res_json ''data''
      | Inr d \<Rightarrow>
          (case subscript d ''collectionId'' of
             Inl _ \<Rightarrow> subscript res_json ''data''
           | Inr c \<Rightarrow> Inr c))"

text \<open>Lines 434 to 485: the upload of the staged file.\<close>

definition upload_request_of :: "client \<Rightarrow> file_args \<Rightarrow> string \<Rightarrow> string \<Rightarrow> upload_request" where
  "upload_request_of kb a actual_file_path filename =
     \<lparr>up_url = base_url kb @ ''/core/dataset/collection/create/localFile'',
      up_headers = filter (\<lambda>h. fst h \<noteq> ''Content-Type'') (headers kb),
      up_filename = encoded_filename (name_opt a) filename,
      up_path = actual_file_path,
      up_data = form_metadata a\<rparr>"

definition upload :: "client \<Rightarrow> env \<Rightarrow> file_args \<Rightarrow> string \<Rightarrow> string \<Rightarrow> world
    \<Rightarrow> (py_exception + json) \<times> world" where
  "upload kb ev a actual_file_path filename w =
     (let rq = upload_request_of kb a actual_file_path filename
      in case open_rb ev actual_file_path of
           Some e \<Rightarrow> (Inl e, w)
         | None \<Rightarrow>
             (let w1 = w\<lparr>net_log := net_log w @ [Upload rq]\<rparr> in
              case requests_post ev rq of
                Inl e \<Rightarrow> (Inl e, w1)
              | Inr response \<Rightarrow>
                  (case raise_for_status response of
                     Some e \<Rightarrow> (Inl e, w1)
                   | None \<Rightarrow>
                       (case json_result response of
                          Inl e \<Rightarrow> (Inl e, w1)
                        | Inr res_json \<Rightarrow> (collection_id_of res_json, w1)))))"

text \<open>The body of the \<open>try\<close>, lines 393 to 485.\<close>

definition create_file_collection_try :: "client \<Rightarrow> env \<Rightarrow> file_args \<Rightarrow> world
    \<Rightarrow> (py_exception + json) \<times> string option \<times> world" where
  "create_file_collection_try kb ev a w =
     (case (if is_url (file_path a) then acquire_url ev (file_path a) w
            else acquire_local ev (file_path a) w) of
        (Inl e, temp_file_path, w1) \<Rightarrow> (Inl e, temp_file_path, w1)
      | (Inr (actual_file_path, filename), temp_file_path, w1) \<Rightarrow>
          (case upload kb ev a actual_file_path filename w1 of
             (r, w2) \<Rightarrow> (r, temp_file_path, w2)))"

text \<open>
  The \<open>finally\<close> clause, lines 488 to 494: an \<open>unlink\<close> that raises is passed over and
  leaves the file.
\<close>

definition cleanup :: "env \<Rightarrow> string option \<Rightarrow> world \<Rightarrow> world" where
  "cleanup ev temp_file_path w =
     (case temp_file_path of
        None \<Rightarrow> w
      | Some p \<Rightarrow>
          if p \<noteq> [] \<and> p \<in> files w then
            (case os_unlink ev p of
               None \<Rightarrow> w\<lparr>files := files w - {p}\<rparr>
             | Some e \<Rightarrow> w)
          else w)"

text \<open>
  \<open>create_file_collection\<close>, lines 357 to 494: the \<open>except\<close> clause replaces every
  exception of the body by an \<open>Exception\<close> whose text starts with
  \<open>File Upload Failed: \<close>, and the \<open>finally\<close> clause runs on every path.
\<close>

definition create_file_collection :: "client \<Rightarrow> env \<Rightarrow> file_args \<Rightarrow> world
    \<Rightarrow> (py_exception + json) \<times> world" where
  "create_file_collection kb ev a w =
     (case create_file_collection_try kb ev a w of
        (r, temp_file_path, w1) \<Rightarrow>
          ((case r of
              Inl e \<Rightarrow> Inl (Exception (''File Upload Failed: '' @ str_exc e))
            | Inr v \<Rightarrow> Inr v),
           cleanup ev temp_file_path w1))"

section \<open>Concrete calls\<close>

text \<open>
  The defaults of the signature of \<open>create_text_collection\<close> (lines 235 to 255), and three
  calls that change some of them.
\<close>

definition text_defaults :: "string \<Rightarrow> string \<Rightarrow> string \<Rightarrow> text_args" where
  "text_defaults txt did nm =
     \<lparr>dataset_id = did, training_type = ''chunk'', parent_id = None, index_prefix_title = None,
      custom_pdf_parse = False, auto_indexes = None, image_index = None,
      chunk_setting_mode = ''auto'', chunk_split_mode = ''size'', chunk_size = 1500,
      index_size = 512, chunk_splitter = [], qa_prompt = [], tags = None, create_time = None,
      metadata = None, text_arg = txt, name = nm\<rparr>"

definition qa_args :: text_args where
  "qa_args = (text_defaults ''some text'' ''ds1'' ''notes'')\<lparr>training_type := ''qa'', qa_prompt := ''ask''\<rparr>"

definition custom_args :: text_args where
  "custom_args = (text_defaults ''some text'' ''ds1'' ''notes'')\<lparr>chunk_setting_mode := ''custom''\<rparr>"

definition auto_args :: text_args where
  "auto_args = (text_defaults ''some text'' ''ds1'' ''notes'')\<lparr>chunk_size := 300, chunk_splitter := ''---''\<rparr>"

text \<open>
  A client, and an environment in which the network is down, the temporary directory
  and the files work, and the set of extensions is iterated in the order of its literal.
  The other environments change one answer of this one. The calls below are on plain
  text, so the three answers of the standard library are never asked.
\<close>

definition kb0 :: client where
  "kb0 = FastGPTKnowledgeBase ''http://localhost:3000/api/'' ''secret''"

definition base_env :: env where
  "base_env =
     \<lparr>requests_request = (\<lambda>rq. Inl (LibError ''connection refused'')),
      requests_get = (\<lambda>u. Inl (LibError ''connection refused'')),
      requests_post = (\<lambda>rq. Inl (LibError ''connection refused'')),
      named_temporary_file = (\<lambda>suffix. Inr ''/tmp/tmpk3v9''),
      tmp_write = (\<lambda>p c. None),
      open_rb = (\<lambda>p. None),
      os_unlink = (\<lambda>p. None),
      ext_order = [''pdf'', ''xlsx'', ''pptx'', ''docx'', ''md'', ''txt''],
      py_repr = (\<lambda>v. ''...''),
      host_check = (\<lambda>h. None),
      utf8_replace = (\<lambda>b. b),
      unicode_lower = (\<lambda>s. s)\<rparr>"

definition service_response :: "nat \<Rightarrow> string \<Rightarrow> json \<Rightarrow> http_response" where
  "service_response st rs body =
     \<lparr>status_code = st, reason = rs, resp_url = ''http://localhost:3000/api/x'',
      content = [], json_result = Inr body\<rparr>"

text \<open>The body \<open>{"code": c, "message": "boom"}\<close>, under three transports.\<close>

definition boom_body :: "int \<Rightarrow> json" where
  "boom_body c = JObj [(''code'', JInt c), (''message'', JStr ''boom'')]"

definition env_boom_200 :: env where
  "env_boom_200 = base_env\<lparr>requests_request := (\<lambda>rq. Inr (service_response 200 ''OK'' (boom_body 500)))\<rparr>"

definition env_zero_200 :: env where
  "env_zero_200 = base_env\<lparr>requests_request := (\<lambda>rq. Inr (service_response 200 ''OK'' (boom_body 0)))\<rparr>"

definition env_boom_500 :: env where
  "env_boom_500 = base_env\<lparr>requests_request :=
     (\<lambda>rq. Inr (service_response 500 ''Internal Server Error'' (boom_body 500)))\<rparr>"

text \<open>
  A service that reports, in the field \<open>data\<close> of its answer, what the JSON body of the
  request holds under one key: the text \<open>absent\<close>, or the value in a list.
\<close>

definition echo_env :: "string \<Rightarrow> env" where
  "echo_env k = base_env\<lparr>requests_request :=
     (\<lambda>rq. Inr (service_response 200 ''OK''
        (JObj [(''data'', (case req_json rq of
                             None \<Rightarrow> JNull
                           | Some p \<Rightarrow> (case p k of None \<Rightarrow> JStr ''absent'' | Some v \<Rightarrow> JList [v])))])))\<rparr>"

text \<open>
  The defaults of the signature of \<open>create_file_collection\<close> (lines 357 to 377), a world
  with one local file and no request sent, the answer to a download, and an environment
  in which the download succeeds and the upload is answered with a given JSON body.
\<close>

definition file_defaults :: "string \<Rightarrow> string \<Rightarrow> file_args" where
  "file_defaults did fp =
     \<lparr>dataset_id = did, training_type = ''chunk'', parent_id = None,
      index_prefix_title = Some True, custom_pdf_parse = True, auto_indexes = None,
      image_index = Some True, chunk_setting_mode = ''auto'', chunk_split_mode = ''size'',
      chunk_size = 1500, index_size = 512, chunk_splitter = [], qa_prompt = [], tags = None,
      create_time = None, metadata = None, file_path = fp, name_opt = None\<rparr>"

definition w0 :: world where
  "w0 = \<lparr>files = {''./example.pdf''}, net_log = []\<rparr>"

definition download_response :: http_response where
  "download_response =
     \<lparr>status_code = 200, reason = ''OK'', resp_url = ''https://example.com/document.pdf'',
      content = ''%PDF-1.4'', json_result = Inl (LibError ''Expecting value'')\<rparr>"

definition upload_env :: "json \<Rightarrow> env" where
  "upload_env body =
     base_env\<lparr>requests_get := (\<lambda>u. Inr download_response),
              requests_post := (\<lambda>rq. Inr (service_response 200 ''OK'' body))\<rparr>"

text \<open>A call that names the upload.\<close>

definition named_args :: file_args where
  "named_args = (file_defaults ''ds1'' ''./example.pdf'')\<lparr>name_opt := Some ''my file/1.pdf''\<rparr>"

text \<open>
  The second call of the example script, and three environments for it: everything
  succeeds; the write to the temporary file fails; the deletion of the temporary file
  fails.
\<close>

definition url_args :: file_args where
  "url_args = file_defaults ''ds1'' ''https://example.com/document.pdf''"

definition env_ok :: env where
  "env_ok = upload_env (JObj [(''code'', JInt 200), (''data'', JStr ''c1'')])"

definition env_write_fails :: env where
  "env_write_fails = env_ok\<lparr>tmp_write := (\<lambda>p c. Some (LibError ''No space left on device''))\<rparr>"

definition env_unlink_fails :: env where
  "env_unlink_fails =
     env_ok\<lparr>os_unlink := (\<lambda>p. Some (LibError ''Permission denied''))\<rparr>"

section \<open>Verified properties\<close>

subsection \<open>Reading a key of the assembled payload\<close>

text \<open>Each conditional statement leaves every key but its own as it was.\<close>

lemma add_flag_other: "k \<noteq> k' \<Longrightarrow> add_flag k' v p k = p k"
  by (simp add: add_flag_def split: option.splits)

lemma add_tags_other: "k \<noteq> ''tags'' \<Longrightarrow> add_tags a p k = p k"
  by (simp add: add_tags_def split: option.splits)

lemma add_create_time_other: "k \<noteq> ''createTime'' \<Longrightarrow> add_create_time a p k = p k"
  by (simp add: add_create_time_def split: option.splits)

lemma add_qa_prompt_other: "k \<noteq> ''qaPrompt'' \<Longrightarrow> add_qa_prompt a p k = p k"
  by (simp add: add_qa_prompt_def)

lemma add_qa_prompt_key:
  "add_qa_prompt a p ''qaPrompt'' =
     (if training_type a = ''qa'' \<and> qa_prompt a \<noteq> [] then Some (JStr (qa_prompt a)) else p ''qaPrompt'')"
  by (simp add: add_qa_prompt_def)

lemma add_custom_chunking_other:
  "k \<noteq> ''chunkSplitMode'' \<Longrightarrow> k \<noteq> ''chunkSize'' \<Longrightarrow> k \<noteq> ''indexSize'' \<Longrightarrow> k \<noteq> ''chunkSplitter''
     \<Longrightarrow> add_custom_chunking a p k = p k"
  by (simp add: add_custom_chunking_def Let_def)

lemma conditional_fields_qa:
  "conditional_fields a p ''qaPrompt'' =
     (if training_type a = ''qa'' \<and> qa_prompt a \<noteq> [] then Some (JStr (qa_prompt a)) else p ''qaPrompt'')"
  by (simp add: conditional_fields_def add_flag_other add_tags_other add_create_time_other
        add_qa_prompt_key add_custom_chunking_other)

lemma conditional_fields_chunk:
  "k = ''chunkSplitMode'' \<or> k = ''chunkSize'' \<or> k = ''indexSize'' \<or> k = ''chunkSplitter''
     \<Longrightarrow> conditional_fields a p k = add_custom_chunking a p k"
  by (auto simp add: conditional_fields_def add_flag_other add_tags_other add_create_time_other
        add_qa_prompt_other)

subsection \<open>Text collections\<close>

text \<open>
  \<open>create_text_collection\<close> sends one request: the \<open>POST\<close> of line 292, whose JSON body
  is \<open>text_payload\<close>. The result of the call is what \<open>_request\<close> makes of the answer to
  that request, so it depends on the environment through that answer only.
\<close>

lemma text_collection_request:
  "create_text_collection kb ev a =
     (case request_try ev \<lparr>req_method = ''POST'',
                            req_url = base_url kb @ ''/core/dataset/collection/create/text'',
                            req_headers = headers kb, req_json = Some (text_payload a),
                            req_params = None\<rparr> of
        Inl e \<Rightarrow> Inl (Exception (''Request Failed: '' @ str_exc e))
      | Inr res \<Rightarrow> subscript res ''data'')"
  by (simp add: create_text_collection_def post_def request_def split: sum.splits)

text \<open>
  A service that reports one key of the body it receives makes the payload of a call
  visible in the result of the call.
\<close>

lemma echo_call:
  "create_text_collection kb (echo_env k) a =
     Inr (case text_payload a k of None \<Rightarrow> JStr ''absent'' | Some v \<Rightarrow> JList [v])"
  by (simp add: text_collection_request request_try_def echo_env_def base_env_def
        service_response_def raise_for_status_def check_code_def dict_get_def subscript_def)

text \<open>
  Claim C5, as amended. Every call to \<open>create_text_collection\<close> sends the \<open>POST\<close> request
  of line 292 with a payload in which the keys \<open>chunkSplitMode\<close>, \<open>chunkSize\<close> and
  \<open>indexSize\<close> are present exactly when \<open>chunk_setting_mode\<close> is \<open>custom\<close>, with the
  values passed, and absent for every other mode whatever was passed; \<open>chunkSplitter\<close> is
  present, with the value passed, exactly when the mode is \<open>custom\<close> and the splitter is
  not the empty string.
\<close>

theorem chunk_fields:
  "\<exists>p. create_text_collection kb ev a =
         (case request_try ev \<lparr>req_method = ''POST'',
                                req_url = base_url kb @ ''/core/dataset/collection/create/text'',
                                req_headers = headers kb, req_json = Some p,
                                req_params = None\<rparr> of
            Inl e \<Rightarrow> Inl (Exception (''Request Failed: '' @ str_exc e))
          | Inr res \<Rightarrow> subscript res ''data'')
       \<and> p = text_payload a
       \<and> p ''chunkSplitMode'' =
           (if chunk_setting_mode a = ''custom'' then Some (JStr (chunk_split_mode a)) else None)
       \<and> p ''chunkSize'' =
           (if chunk_setting_mode a = ''custom'' then Some (JInt (chunk_size a)) else None)
       \<and> p ''indexSize'' =
           (if chunk_setting_mode a = ''custom'' then Some (JInt (index_size a)) else None)
       \<and> p ''chunkSplitter'' =
           (if chunk_setting_mode a = ''custom'' \<and> chunk_splitter a \<noteq> []
            then Some (JStr (chunk_splitter a)) else None)"
proof (intro exI [of _ "text_payload a"] conjI)
  show "create_text_collection kb ev a =
         (case request_try ev \<lparr>req_method = ''POST'',
                                req_url = base_url kb @ ''/core/dataset/collection/create/text'',
                                req_headers = headers kb, req_json = Some (text_payload a),
                                req_params = None\<rparr> of
            Inl e \<Rightarrow> Inl (Exception (''Request Failed: '' @ str_exc e))
          | Inr res \<Rightarrow> subscript res ''data'')"
    by (rule text_collection_request)
qed (simp_all add: text_payload_def conditional_fields_chunk text_payload_init_def
       add_custom_chunking_def Let_def)

text \<open>
  The theorem at two calls to a service that reports a key of the body: the mode
  \<open>custom\<close> with the other defaults, and the mode \<open>auto\<close> with a chunk size and a
  splitter passed.
\<close>

theorem chunk_fields_witness:
  "create_text_collection kb0 (echo_env ''chunkSize'') custom_args = Inr (JList [JInt 1500])
   \<and> create_text_collection kb0 (echo_env ''chunkSplitter'') custom_args = Inr (JStr ''absent'')
   \<and> create_text_collection kb0 (echo_env ''chunkSize'') auto_args = Inr (JStr ''absent'')
   \<and> create_text_collection kb0 (echo_env ''chunkSplitter'') auto_args = Inr (JStr ''absent'')"
proof -
  have c: "chunk_setting_mode custom_args = ''custom''" "chunk_size custom_args = 1500"
    "chunk_splitter custom_args = []"
    by (simp_all add: custom_args_def text_defaults_def)
  have a: "chunk_setting_mode auto_args = ''auto''"
    by (simp add: auto_args_def text_defaults_def)
  from chunk_fields [of kb0 "echo_env ''chunkSize''" custom_args]
  have 1: "text_payload custom_args ''chunkSize'' = Some (JInt 1500)"
    and 2: "text_payload custom_args ''chunkSplitter'' = None"
    by (auto simp add: c)
  from chunk_fields [of kb0 "echo_env ''chunkSize''" auto_args]
  have 3: "text_payload auto_args ''chunkSize'' = None"
    and 4: "text_payload auto_args ''chunkSplitter'' = None"
    by (auto simp add: a)
  show ?thesis by (simp add: echo_call 1 2 3 4)
qed

text \<open>
  Claim C5 as it is stated fails: with the mode \<open>custom\<close> and the default splitter (the
  empty string), line 276 leaves \<open>chunkSplitter\<close> out of the payload, and the service
  receives a body without that key.
\<close>

theorem chunk_splitter_counterexample:
  "chunk_setting_mode custom_args = ''custom''
   \<and> ''chunkSplitter'' \<notin> dom (text_payload custom_args)
   \<and> create_text_collection kb0 (echo_env ''chunkSplitter'') custom_args = Inr (JStr ''absent'')"
proof -
  have "text_payload custom_args ''chunkSplitter'' = None"
    by (simp add: text_payload_def conditional_fields_chunk text_payload_init_def
          add_custom_chunking_def Let_def custom_args_def text_defaults_def)
  then show ?thesis
    by (simp add: echo_call dom_def custom_args_def text_defaults_def)
qed

text \<open>
  Claim C6. Every call to \<open>create_text_collection\<close> sends the \<open>POST\<close> request of line 292
  with a payload that has the key \<open>qaPrompt\<close> if and only if \<open>training_type\<close> is \<open>qa\<close> and
  \<open>qa_prompt\<close> is not the empty string, and its value is then the prompt.
\<close>

theorem qa_prompt_field:
  "\<exists>p. create_text_collection kb ev a =
         (case request_try ev \<lparr>req_method = ''POST'',
                                req_url = base_url kb @ ''/core/dataset/collection/create/text'',
                                req_headers = headers kb, req_json = Some p,
                                req_params = None\<rparr> of
            Inl e \<Rightarrow> Inl (Exception (''Request Failed: '' @ str_exc e))
          | Inr res \<Rightarrow> subscript res ''data'')
       \<and> p = text_payload a
       \<and> (''qaPrompt'' \<in> dom p) = (training_type a = ''qa'' \<and> qa_prompt a \<noteq> [])
       \<and> p ''qaPrompt'' =
           (if training_type a = ''qa'' \<and> qa_prompt a \<noteq> [] then Some (JStr (qa_prompt a)) else None)"
proof (intro exI [of _ "text_payload a"] conjI)
  show "create_text_collection kb ev a =
         (case request_try ev \<lparr>req_method = ''POST'',
                                req_url = base_url kb @ ''/core/dataset/collection/create/text'',
                                req_headers = headers kb, req_json = Some (text_payload a),
                                req_params = None\<rparr> of
            Inl e \<Rightarrow> Inl (Exception (''Request Failed: '' @ str_exc e))
          | Inr res \<Rightarrow> subscript res ''data'')"
    by (rule text_collection_request)
qed (simp_all add: dom_def text_payload_def conditional_fields_qa text_payload_init_def)

text \<open>
  The theorem at two calls to a service that reports the key \<open>qaPrompt\<close> of the body:
  the type \<open>qa\<close> with a prompt, and the default type.
\<close>

theorem qa_prompt_field_witness:
  "create_text_collection kb0 (echo_env ''qaPrompt'') qa_args = Inr (JList [JStr ''ask''])
   \<and> create_text_collection kb0 (echo_env ''qaPrompt'') auto_args = Inr (JStr ''absent'')"
proof -
  have q: "training_type qa_args = ''qa''" "qa_prompt qa_args = ''ask''"
    by (simp_all add: qa_args_def text_defaults_def)
  have a: "training_type auto_args = ''chunk''"
    by (simp add: auto_args_def text_defaults_def)
  from qa_prompt_field [of kb0 "echo_env ''qaPrompt''" qa_args]
  have 1: "text_payload qa_args ''qaPrompt'' = Some (JStr ''ask'')"
    by (auto simp add: q)
  from qa_prompt_field [of kb0 "echo_env ''qaPrompt''" auto_args]
  have 2: "text_payload auto_args ''qaPrompt'' = None"
    by (auto simp add: a)
  show ?thesis by (simp add: echo_call 1 2)
qed

subsection \<open>Dataset detail\<close>

text \<open>
  Claim C8. The dictionary of the specification, with any four values in its
  \<open>agentModel\<close>, is turned by \<open>DatasetDetail.from_dict\<close> into a record whose \<open>id\<close> is
  \<open>d1\<close> and whose \<open>canWrite\<close> is true; no exception is raised.
\<close>

theorem dataset_detail_roundtrip:
  "\<exists>d. from_dict (JObj [(''_id'', JStr ''d1''), (''type'', JStr ''dataset''), (''name'', JStr ''KB''),
          (''vectorModel'', JObj [(''model'', JStr ''m''), (''name'', JStr ''n''),
                                  (''charsPointsPrice'', JInt 0), (''defaultToken'', JInt 100)]),
          (''agentModel'', JObj [(''model'', a_model), (''name'', a_name),
                                 (''charsPointsPrice'', a_price), (''defaultToken'', a_token)]),
          (''canWrite'', JBool True), (''isOwner'', JBool False)]) = Inr d
       \<and> dd_id d = JStr ''d1'' \<and> canWrite d = JBool True"
  by (simp add: from_dict_def ModelConfig_kwargs_def ModelConfig_fields_def dict_get_def)

subsection \<open>The transport layer\<close>

text \<open>Characters given by their code are computed bit by bit.\<close>

lemmas char_eval = char_of_def bit_Suc_0_iff

text \<open>
  Claim C4, as amended. For every operation routed through \<open>_request\<close>, when the HTTP
  status raises nothing (it is outside 400 to 599) and the body is a JSON object: a
  service-level code that is truthy (not absent, \<open>null\<close>, 0, false or empty) and is
  neither 200 nor 201 gives the one error \<open>Request Failed: FastGPT API Error: \<close> followed
  by the message of the body; any other code returns the body.
\<close>

theorem request_service_code:
  assumes "requests_request ev \<lparr>req_method = method, req_url = base_url kb @ endpoint,
             req_headers = headers kb, req_json = js, req_params = params\<rparr> = Inr response"
    and "raise_for_status response = None"
    and "json_result response = Inr (JObj kvs)"
  shows "request kb ev method endpoint js params =
     (if truthy (dict_get kvs ''code'' JNull) \<and> dict_get kvs ''code'' JNull \<noteq> JInt 200
          \<and> dict_get kvs ''code'' JNull \<noteq> JInt 201
      then Inl (Exception (''Request Failed: FastGPT API Error: ''
                            @ py_str (py_repr ev) (dict_get kvs ''message'' JNull)))
      else Inr (JObj kvs))"
  using assms by (simp add: request_def request_try_def check_code_def Let_def)

text \<open>
  The body \<open>{"code": 500, "message": "boom"}\<close> under the HTTP status 200: the error
  contains \<open>boom\<close>.
\<close>

theorem request_service_code_witness:
  "request kb0 env_boom_200 ''POST'' ''/x'' (Some Map.empty) None
     = Inl (Exception ''Request Failed: FastGPT API Error: boom'')
   \<and> contains ''Request Failed: FastGPT API Error: boom'' ''boom''"
proof -
  have h1: "requests_request env_boom_200 \<lparr>req_method = ''POST'', req_url = base_url kb0 @ ''/x'',
             req_headers = headers kb0, req_json = Some Map.empty, req_params = None\<rparr>
            = Inr (service_response 200 ''OK'' (boom_body 500))"
    by (simp add: env_boom_200_def base_env_def)
  have h2: "raise_for_status (service_response 200 ''OK'' (boom_body 500)) = None"
    by (simp add: raise_for_status_def service_response_def)
  have h3: "json_result (service_response 200 ''OK'' (boom_body 500))
            = Inr (JObj [(''code'', JInt 500), (''message'', JStr ''boom'')])"
    by (simp add: service_response_def boom_body_def)
  show ?thesis
    using request_service_code [OF h1 h2 h3]
    by (simp add: dict_get_def contains_def sublist_code env_boom_200_def base_env_def)
qed

text \<open>
  Claim C4 as it is stated fails twice. The code 0 is neither 200 nor 201, and line 153
  lets it through: the body is returned. And under a failing HTTP status the error is
  raised by \<open>raise_for_status\<close> before the body is read, so it does not carry the
  message of the body.
\<close>

theorem request_code_counterexample:
  "request kb0 env_zero_200 ''POST'' ''/x'' (Some Map.empty) None = Inr (boom_body 0)
   \<and> request kb0 env_boom_500 ''POST'' ''/x'' (Some Map.empty) None
       = Inl (Exception ''Request Failed: 500 Server Error: Internal Server Error for url: http://localhost:3000/api/x'')
   \<and> \<not> contains ''Request Failed: 500 Server Error: Internal Server Error for url: http://localhost:3000/api/x'' ''boom''"
  by (simp add: request_def request_try_def check_code_def Let_def env_zero_200_def env_boom_500_def
        base_env_def service_response_def raise_for_status_def boom_body_def dict_get_def
        show_nat.simps digit_char_def char_eval contains_def sublist_code)

subsection \<open>Percent-encoding\<close>

text \<open>
  \<open>quote\<close> with no safe characters writes every byte that is not a letter, a digit or
  one of \<open>_.-~\<close> as an escape of \<open>%\<close> and two hexadecimal digits, and \<open>unquote_to_bytes\<close>
  reads the bytes back.
\<close>

lemma hex_val_hex_digit: "d < 16 \<Longrightarrow> hex_val (hex_digit d) = Some d"
  by (auto simp add: hex_val_def hex_digit_def Let_def)

lemma always_safe_hex_digit: "d < 16 \<Longrightarrow> always_safe (hex_digit d)"
  by (auto simp add: always_safe_def hex_digit_def Let_def)

lemma always_safe_not_percent: "always_safe c \<Longrightarrow> c \<noteq> CHR ''%''"
  by (auto simp add: always_safe_def Let_def)

lemma unquote_Cons_other: "c \<noteq> CHR ''%'' \<Longrightarrow> unquote_to_bytes (c # s) = c # unquote_to_bytes s"
proof (cases s)
  case Nil
  then show ?thesis by simp
next
  case (Cons x xs)
  assume c: "c \<noteq> CHR ''%''"
  show ?thesis
  proof (cases xs)
    case Nil
    with Cons show ?thesis by simp
  next
    case (Cons y ys)
    with \<open>s = x # xs\<close> c show ?thesis by (simp split: option.splits)
  qed
qed

lemma unquote_percent: "unquote_to_bytes (percent c @ s) = c # unquote_to_bytes s"
proof -
  have d: "(of_char c :: nat) div 16 < 16"
    by (rule less_mult_imp_div_less) simp
  have m: "(of_char c :: nat) mod 16 < 16" by simp
  have "char_of (16 * ((of_char c :: nat) div 16) + (of_char c :: nat) mod 16) = c"
    by simp
  then show ?thesis
    using hex_val_hex_digit [OF d] hex_val_hex_digit [OF m]
    by (simp add: percent_def)
qed

lemma unquote_quote: "unquote_to_bytes (quote [] s) = s"
proof (induction s)
  case Nil
  then show ?case by (simp add: quote_def)
next
  case (Cons c s)
  have q: "quote [] (c # s) = (if always_safe c then [c] else percent c) @ quote [] s"
    by (simp add: quote_def)
  show ?case
  proof (cases "always_safe c")
    case True
    then show ?thesis
      using Cons unquote_Cons_other [OF always_safe_not_percent [OF True]] by (simp add: q)
  next
    case False
    then show ?thesis
      using Cons unquote_percent [of c "quote [] s"] by (simp add: q)
  qed
qed

lemma quote_chars: "x \<in> set (quote [] s) \<Longrightarrow> always_safe x \<or> x = CHR ''%''"
proof (induction s)
  case Nil
  then show ?case by (simp add: quote_def)
next
  case (Cons c s)
  have d: "(of_char c :: nat) div 16 < 16"
    by (rule less_mult_imp_div_less) simp
  have m: "(of_char c :: nat) mod 16 < 16" by simp
  have q: "quote [] (c # s) = (if always_safe c then [c] else percent c) @ quote [] s"
    by (simp add: quote_def)
  from Cons.prems have "x \<in> set (if always_safe c then [c] else percent c) \<or> x \<in> set (quote [] s)"
    by (simp add: q)
  then show ?case
  proof
    assume "x \<in> set (if always_safe c then [c] else percent c)"
    then show ?thesis
      using always_safe_hex_digit [OF d] always_safe_hex_digit [OF m]
      by (auto simp add: percent_def split: if_splits)
  next
    assume "x \<in> set (quote [] s)"
    then show ?thesis by (rule Cons.IH)
  qed
qed

subsection \<open>File ingestion: validation\<close>

text \<open>The source reference \<open>https://host/doc.jpg\<close>.\<close>

lemma jpg_path: "urlparse_path ev ''https://host/doc.jpg'' = Inr ''/doc.jpg''"
  by (simp add: urlparse_path_def strip_unsafe_def host_char_def split_params_def after_last_def
        is_ascii_def Let_def)

lemma jpg_ext: "file_ext_of ev (basename (unquote ev ''/doc.jpg'')) = ''jpg''"
  by (simp add: file_ext_of_def unquote_def basename_def after_last_def lower_def is_ascii_def
        lower_char_def char_eval)

lemma jpg_not_allowed: "''jpg'' \<notin> ALLOWED_EXTENSIONS"
  by (simp add: ALLOWED_EXTENSIONS_def)

text \<open>
  The message of the unsupported-format error names the extension it was given and,
  whatever the order of iteration, each allowed extension.
\<close>

lemma sublist_under_prefix:
  assumes "sublist x ys"
  shows "sublist x (ps @ ys)"
proof -
  from assms obtain p s where "ys = p @ x @ s"
    by (auto simp add: sublist_def)
  then have "ps @ ys = (ps @ p) @ x @ s" by simp
  then show ?thesis by (metis sublist_appendI)
qed

lemma join_mentions: "x \<in> set xs \<Longrightarrow> sublist x (join sep xs)"
proof (induction sep xs rule: join.induct)
  case (1 sep)
  then show ?case by simp
next
  case (2 sep y)
  then show ?case by simp
next
  case (3 sep y z zs)
  show ?case
  proof (cases "x = y")
    case True
    then show ?thesis by simp
  next
    case False
    with 3 have "sublist x (join sep (z # zs))" by simp
    then have "sublist x ((y @ sep) @ join sep (z # zs))"
      by (rule sublist_under_prefix)
    then show ?thesis by simp
  qed
qed

lemma unsupported_message_mentions:
  assumes "wf_env ev"
  shows "contains (str_exc (unsupported_format ev file_ext)) file_ext"
    and "e \<in> ALLOWED_EXTENSIONS \<Longrightarrow> contains (str_exc (unsupported_format ev file_ext)) e"
proof -
  show "contains (str_exc (unsupported_format ev file_ext)) file_ext"
    unfolding contains_def unsupported_format_def str_exc.simps
    by (rule sublist_appendI)
  assume "e \<in> ALLOWED_EXTENSIONS"
  with assms have "e \<in> set (ext_order ev)" by (simp add: wf_env_def)
  then have "sublist e (join '', '' (ext_order ev))" by (rule join_mentions)
  then have "sublist e ((msg_unsupported @ file_ext @ ''. '' @ msg_allowed) @ join '', '' (ext_order ev))"
    by (rule sublist_under_prefix)
  then show "contains (str_exc (unsupported_format ev file_ext)) e"
    by (simp add: contains_def unsupported_format_def)
qed

text \<open>
  Claim C2, evaluated on the code. For \<open>file_path = "https://host/doc.jpg"\<close> the body
  of the \<open>try\<close> raises the \<open>ValueError\<close> of line 401, whose message names the extension
  \<open>jpg\<close> and the allowed formats; the \<open>except\<close> clause of line 486 replaces it, and
  the caller receives a plain \<open>Exception\<close>, the kind of every other failure.
\<close>

theorem jpg_url_wrapped:
  "create_file_collection_try kb ev (a\<lparr>file_path := ''https://host/doc.jpg''\<rparr>) w
     = (Inl (ValueError (msg_unsupported @ ''jpg. '' @ msg_allowed @ join '', '' (ext_order ev))), None, w)
   \<and> create_file_collection kb ev (a\<lparr>file_path := ''https://host/doc.jpg''\<rparr>) w
     = (Inl (Exception (''File Upload Failed: '' @ msg_unsupported @ ''jpg. '' @ msg_allowed
                         @ join '', '' (ext_order ev))), w)"
  by (simp add: create_file_collection_def create_file_collection_try_def acquire_url_def
        cleanup_def Let_def is_url_def jpg_path jpg_ext jpg_not_allowed unsupported_format_def)

text \<open>
  Claim C3. For a URL whose derived extension is not allowed, the call fails with the
  unsupported-format error of line 401 (handed to the caller inside the wrapper of line
  487), no request is sent and no file is created: the world is as it was.
\<close>

theorem unsupported_url_no_network:
  assumes "is_url (file_path a)"
    and "urlparse_path ev (file_path a) = Inr path"
    and "file_ext_of ev (basename (unquote ev path)) \<notin> ALLOWED_EXTENSIONS"
  shows "create_file_collection_try kb ev a w
           = (Inl (unsupported_format ev (file_ext_of ev (basename (unquote ev path)))), None, w)
       \<and> create_file_collection kb ev a w
           = (Inl (Exception (''File Upload Failed: ''
                 @ str_exc (unsupported_format ev (file_ext_of ev (basename (unquote ev path)))))), w)
       \<and> net_log (snd (create_file_collection kb ev a w)) = net_log w
       \<and> files (snd (create_file_collection kb ev a w)) = files w"
  using assms
  by (simp add: create_file_collection_def create_file_collection_try_def acquire_url_def
        cleanup_def Let_def)

text \<open>
  The theorem at \<open>https://host/doc.jpg\<close>, in an environment where a download and an
  upload would succeed.
\<close>

theorem unsupported_url_no_network_witness:
  "create_file_collection kb0 (upload_env (JObj [(''data'', JStr ''c1'')]))
      (file_defaults ''ds1'' ''https://host/doc.jpg'') w0
     = (Inl (Exception (''File Upload Failed: '' @ msg_unsupported
          @ ''jpg. '' @ msg_allowed @ ''pdf, xlsx, pptx, docx, md, txt'')), w0)"
proof -
  have h1: "is_url (file_path (file_defaults ''ds1'' ''https://host/doc.jpg''))"
    by (simp add: file_defaults_def is_url_def)
  have h2: "urlparse_path (upload_env (JObj [(''data'', JStr ''c1'')]))
              (file_path (file_defaults ''ds1'' ''https://host/doc.jpg'')) = Inr ''/doc.jpg''"
    by (simp add: file_defaults_def jpg_path)
  have h3: "file_ext_of (upload_env (JObj [(''data'', JStr ''c1'')]))
              (basename (unquote (upload_env (JObj [(''data'', JStr ''c1'')])) ''/doc.jpg''))
            \<notin> ALLOWED_EXTENSIONS"
    by (simp add: jpg_ext jpg_not_allowed)
  show ?thesis
    using unsupported_url_no_network [OF h1 h2 h3, of kb0 w0]
    by (simp add: jpg_ext unsupported_format_def upload_env_def base_env_def)
qed

text \<open>
  Claim C9. For a local path that does not exist, the \<open>FileNotFoundError\<close> of line 420
  is raised, whatever the extension of the path; the unsupported-format error is not.
\<close>

theorem missing_local_file:
  assumes "\<not> is_url (file_path a)" and "file_path a \<notin> files w"
  shows "create_file_collection_try kb ev a w = (Inl (not_found (file_path a)), None, w)
       \<and> create_file_collection kb ev a w
           = (Inl (Exception (''File Upload Failed: '' @ msg_not_found @ file_path a)), w)
       \<and> fst (create_file_collection_try kb ev a w) \<noteq> Inl (unsupported_format ev ext)"
  using assms
  by (simp add: create_file_collection_def create_file_collection_try_def acquire_local_def
        cleanup_def not_found_def unsupported_format_def)

text \<open>The theorem at \<open>./missing.jpg\<close>, whose extension is not allowed either.\<close>

theorem missing_local_file_witness:
  "file_ext_of base_env (basename ''./missing.jpg'') \<notin> ALLOWED_EXTENSIONS
   \<and> create_file_collection kb0 base_env (file_defaults ''ds1'' ''./missing.jpg'') w0
       = (Inl (Exception (''File Upload Failed: '' @ msg_not_found @ ''./missing.jpg'')), w0)"
proof -
  have h1: "\<not> is_url (file_path (file_defaults ''ds1'' ''./missing.jpg''))"
    by (simp add: file_defaults_def is_url_def)
  have h2: "file_path (file_defaults ''ds1'' ''./missing.jpg'') \<notin> files w0"
    by (simp add: file_defaults_def w0_def)
  have h3: "file_ext_of base_env (basename ''./missing.jpg'') \<notin> ALLOWED_EXTENSIONS"
    by (simp add: file_ext_of_def basename_def after_last_def lower_def is_ascii_def lower_char_def
          char_eval ALLOWED_EXTENSIONS_def)
  show ?thesis
    using missing_local_file [OF h1 h2, of kb0 base_env] h3
    by (simp add: file_defaults_def)
qed

subsection \<open>File ingestion: the response\<close>

text \<open>
  Claim C7. When the source is resolved, the file opens, and the upload is answered
  with a passing status and a JSON object that has the field \<open>data\<close>, the call returns
  normally: the field \<open>collectionId\<close> of \<open>data\<close> when \<open>data\<close> is an object with that field,
  and \<open>data\<close> itself otherwise.
\<close>

theorem collection_id_shapes:
  assumes "(if is_url (file_path a) then acquire_url ev (file_path a) w
            else acquire_local ev (file_path a) w) = (Inr (actual, filename), t, w1)"
    and "open_rb ev actual = None"
    and "requests_post ev (upload_request_of kb a actual filename) = Inr response"
    and "raise_for_status response = None"
    and "json_result response = Inr (JObj kvs)"
    and "map_of kvs ''data'' = Some d"
  shows "fst (create_file_collection kb ev a w) =
     Inr (case d of
            JObj dkvs \<Rightarrow> (case map_of dkvs ''collectionId'' of Some c \<Rightarrow> c | None \<Rightarrow> d)
          | _ \<Rightarrow> d)"
  using assms
  by (cases d)
     (simp_all add: create_file_collection_def create_file_collection_try_def upload_def Let_def
        collection_id_of_def subscript_def type_name_def split: option.splits)

text \<open>The local file \<open>./example.pdf\<close> is resolved to itself.\<close>

lemma example_pdf_local:
  "(if is_url ''./example.pdf'' then acquire_url ev ''./example.pdf'' w0
    else acquire_local ev ''./example.pdf'' w0) = (Inr (''./example.pdf'', ''example.pdf''), None, w0)"
  by (simp add: is_url_def acquire_local_def w0_def Let_def basename_def after_last_def
        file_ext_of_def lower_def is_ascii_def lower_char_def char_eval ALLOWED_EXTENSIONS_def)

text \<open>The theorem at both shapes of the response.\<close>

theorem collection_id_shapes_witness:
  "fst (create_file_collection kb0 (upload_env (JObj [(''code'', JInt 200), (''data'', JObj [(''collectionId'', JStr ''c1'')])]))
         (file_defaults ''ds1'' ''./example.pdf'') w0) = Inr (JStr ''c1'')
   \<and> fst (create_file_collection kb0 (upload_env (JObj [(''code'', JInt 200), (''data'', JStr ''c2'')]))
         (file_defaults ''ds1'' ''./example.pdf'') w0) = Inr (JStr ''c2'')"
proof -
  have fp: "file_path (file_defaults ''ds1'' ''./example.pdf'') = ''./example.pdf''"
    by (simp add: file_defaults_def)
  have r: "raise_for_status (service_response 200 ''OK'' b) = None" for b
    by (simp add: raise_for_status_def service_response_def)
  have j: "json_result (service_response 200 ''OK'' b) = Inr b" for b
    by (simp add: service_response_def)
  have o: "open_rb (upload_env b) ''./example.pdf'' = None" for b
    by (simp add: upload_env_def base_env_def)
  have p: "requests_post (upload_env b) rq = Inr (service_response 200 ''OK'' b)" for b rq
    by (simp add: upload_env_def base_env_def)
  have a: "(if is_url (file_path (file_defaults ''ds1'' ''./example.pdf''))
            then acquire_url ev (file_path (file_defaults ''ds1'' ''./example.pdf'')) w0
            else acquire_local ev (file_path (file_defaults ''ds1'' ''./example.pdf'')) w0)
           = (Inr (''./example.pdf'', ''example.pdf''), None, w0)" for ev
    unfolding fp by (rule example_pdf_local)
  have d1: "map_of [(''code'', JInt 200), (''data'', JObj [(''collectionId'', JStr ''c1'')])] ''data''
            = Some (JObj [(''collectionId'', JStr ''c1'')])"
    by simp
  have d2: "map_of [(''code'', JInt 200), (''data'', JStr ''c2'')] ''data'' = Some (JStr ''c2'')"
    by simp
  show ?thesis
    using collection_id_shapes [OF a o p r j d1] collection_id_shapes [OF a o p r j d2]
    by simp
qed

subsection \<open>File ingestion: the requests of a call\<close>

text \<open>
  What each part of \<open>create_file_collection\<close> adds to the log of requests, and the file
  name it derives.
\<close>

lemma cleanup_net_log: "net_log (cleanup ev t w) = net_log w"
  by (simp add: cleanup_def split: option.splits)

lemma acquire_url_Inr:
  "acquire_url ev fp w = (Inr (p, fn), t, w1) \<Longrightarrow>
     (\<exists>path. urlparse_path ev fp = Inr path \<and> fn = basename (unquote ev path))
     \<and> net_log w1 = net_log w @ [Download fp]"
  by (auto simp add: acquire_url_def Let_def split: sum.splits option.splits if_splits)

lemma acquire_url_Inl:
  "acquire_url ev fp w = (Inl e, t, w1) \<Longrightarrow>
     net_log w1 = net_log w \<or> net_log w1 = net_log w @ [Download fp]"
  by (auto simp add: acquire_url_def Let_def split: sum.splits option.splits if_splits)

lemma acquire_local_cases:
  "acquire_local ev fp w = (r, t, w1) \<Longrightarrow>
     w1 = w \<and> (\<forall>p fn. r = Inr (p, fn) \<longrightarrow> fn = basename fp)"
  by (auto simp add: acquire_local_def Let_def split: if_splits)

lemma upload_net_log:
  "net_log (snd (upload kb ev a p fn w)) = net_log w
   \<or> net_log (snd (upload kb ev a p fn w)) = net_log w @ [Upload (upload_request_of kb a p fn)]"
  by (simp add: upload_def Let_def split: sum.splits option.splits)

lemma empty_name_as_none:
  "create_file_collection kb ev (a\<lparr>name_opt := Some []\<rparr>) w
     = create_file_collection kb ev (a\<lparr>name_opt := None\<rparr>) w"
proof -
  have "add_custom_chunking (a\<lparr>name_opt := x\<rparr>) = add_custom_chunking a" for x
    by (simp add: fun_eq_iff add_custom_chunking_def Let_def)
  moreover have "add_qa_prompt (a\<lparr>name_opt := x\<rparr>) = add_qa_prompt a" for x
    by (auto simp add: fun_eq_iff add_qa_prompt_def)
  moreover have "add_tags (a\<lparr>name_opt := x\<rparr>) = add_tags a" for x
    by (simp add: fun_eq_iff add_tags_def)
  moreover have "add_create_time (a\<lparr>name_opt := x\<rparr>) = add_create_time a" for x
    by (simp add: fun_eq_iff add_create_time_def)
  ultimately have m: "form_metadata (a\<lparr>name_opt := x\<rparr>) = form_metadata a" for x
    by (simp add: form_metadata_def form_metadata_init_def conditional_fields_def)
  have u: "upload_request_of kb (a\<lparr>name_opt := Some []\<rparr>) p fn
           = upload_request_of kb (a\<lparr>name_opt := None\<rparr>) p fn" for p fn
    by (simp add: upload_request_of_def encoded_filename_def chosen_name_def m)
  have up: "upload kb ev (a\<lparr>name_opt := Some []\<rparr>) = upload kb ev (a\<lparr>name_opt := None\<rparr>)"
    by (simp add: fun_eq_iff upload_def u)
  have "create_file_collection_try kb ev (a\<lparr>name_opt := Some []\<rparr>) w
        = create_file_collection_try kb ev (a\<lparr>name_opt := None\<rparr>) w"
    unfolding create_file_collection_try_def up by simp
  then show ?thesis
    by (simp add: create_file_collection_def)
qed

lemma new_uploads:
  assumes "Upload rq \<in> set (drop (length (net_log w)) (net_log (snd (create_file_collection kb ev a w))))"
  shows "\<exists>p fn. display_name ev (file_path a) = Inr fn \<and> rq = upload_request_of kb a p fn"
proof -
  obtain r t w1 where acq: "(if is_url (file_path a) then acquire_url ev (file_path a) w
            else acquire_local ev (file_path a) w) = (r, t, w1)"
    by (metis prod_cases3)
  show ?thesis
  proof (cases r)
    case (Inl e)
    have "net_log (snd (create_file_collection kb ev a w)) = net_log w1"
      using acq Inl by (simp add: create_file_collection_def create_file_collection_try_def cleanup_net_log)
    moreover have "net_log w1 = net_log w \<or> net_log w1 = net_log w @ [Download (file_path a)]"
      using acq Inl acquire_url_Inl [of ev "file_path a" w e t w1]
        acquire_local_cases [of ev "file_path a" w r t w1]
      by (auto split: if_splits)
    ultimately show ?thesis using assms by auto
  next
    case (Inr pf)
    obtain p fn where pf: "pf = (p, fn)" by (cases pf)
    have dn: "display_name ev (file_path a) = Inr fn"
      using acq Inr pf acquire_url_Inr [of ev "file_path a" w p fn t w1]
        acquire_local_cases [of ev "file_path a" w r t w1]
      by (auto simp add: display_name_def split: if_splits)
    have l1: "net_log w1 = net_log w \<or> net_log w1 = net_log w @ [Download (file_path a)]"
      using acq Inr pf acquire_url_Inr [of ev "file_path a" w p fn t w1]
        acquire_local_cases [of ev "file_path a" w r t w1]
      by (auto split: if_splits)
    have "net_log (snd (create_file_collection kb ev a w)) = net_log (snd (upload kb ev a p fn w1))"
      using acq Inr pf
      by (simp add: create_file_collection_def create_file_collection_try_def cleanup_net_log
            split: prod.splits)
    then have "net_log (snd (create_file_collection kb ev a w)) = net_log w1
        \<or> net_log (snd (create_file_collection kb ev a w)) = net_log w1 @ [Upload (upload_request_of kb a p fn)]"
      using upload_net_log [of kb ev a p fn w1] by auto
    then have "rq = upload_request_of kb a p fn"
      using assms l1 by auto
    with dn show ?thesis by blast
  qed
qed

text \<open>
  Claim C10. A name override that is the empty string gives the same call as no
  override. Every upload that a call sends carries, in the field \<open>file\<close>, the
  percent-encoding with no safe characters of the chosen name: the override when it is
  not empty, the display name derived from the path or URL otherwise. The encoded name
  consists of letters, digits, \<open>_.-~\<close> and escapes only (so \<open>/\<close> is escaped too), and
  its escapes decode to the bytes of the chosen name.
\<close>

theorem upload_name_encoding:
  "create_file_collection kb ev (a\<lparr>name_opt := Some []\<rparr>) w
     = create_file_collection kb ev (a\<lparr>name_opt := None\<rparr>) w
   \<and> (\<forall>rq. Upload rq \<in> set (drop (length (net_log w)) (net_log (snd (create_file_collection kb ev a w))))
        \<longrightarrow> (\<exists>filename. display_name ev (file_path a) = Inr filename
              \<and> up_filename rq = quote [] (case name_opt a of None \<Rightarrow> filename
                                             | Some n \<Rightarrow> if n = [] then filename else n)
              \<and> unquote_to_bytes (up_filename rq) = (case name_opt a of None \<Rightarrow> filename
                                             | Some n \<Rightarrow> if n = [] then filename else n)
              \<and> (\<forall>c \<in> set (up_filename rq). always_safe c \<or> c = CHR ''%'')))"
proof (intro conjI allI impI)
  show "create_file_collection kb ev (a\<lparr>name_opt := Some []\<rparr>) w
     = create_file_collection kb ev (a\<lparr>name_opt := None\<rparr>) w"
    by (rule empty_name_as_none)
next
  fix rq
  assume "Upload rq \<in> set (drop (length (net_log w)) (net_log (snd (create_file_collection kb ev a w))))"
  then obtain p fn where dn: "display_name ev (file_path a) = Inr fn"
    and rq: "rq = upload_request_of kb a p fn"
    using new_uploads by blast
  have ch: "chosen_name (name_opt a) fn
            = (case name_opt a of None \<Rightarrow> fn | Some n \<Rightarrow> if n = [] then fn else n)"
    by (simp add: chosen_name_def split: option.splits)
  have f: "up_filename rq = quote [] (chosen_name (name_opt a) fn)"
    by (simp add: rq upload_request_of_def encoded_filename_def)
  show "\<exists>filename. display_name ev (file_path a) = Inr filename
              \<and> up_filename rq = quote [] (case name_opt a of None \<Rightarrow> filename
                                             | Some n \<Rightarrow> if n = [] then filename else n)
              \<and> unquote_to_bytes (up_filename rq) = (case name_opt a of None \<Rightarrow> filename
                                             | Some n \<Rightarrow> if n = [] then filename else n)
              \<and> (\<forall>c \<in> set (up_filename rq). always_safe c \<or> c = CHR ''%'')"
    using dn f ch unquote_quote [of "chosen_name (name_opt a) fn"]
      quote_chars [of _ "chosen_name (name_opt a) fn"]
    by (intro exI [of _ fn]) simp
qed

text \<open>The call on \<open>./example.pdf\<close> with the name \<open>my file/1.pdf\<close> sends one upload.\<close>

lemma named_upload_log:
  "net_log (snd (create_file_collection kb0 (upload_env b) named_args w0))
     = [Upload (upload_request_of kb0 named_args ''./example.pdf'' ''example.pdf'')]"
proof -
  have fp: "file_path named_args = ''./example.pdf''"
    by (simp add: named_args_def file_defaults_def)
  have w: "net_log w0 = []" by (simp add: w0_def)
  show ?thesis
    unfolding create_file_collection_def create_file_collection_try_def fp example_pdf_local
    by (simp add: upload_def upload_env_def base_env_def service_response_def raise_for_status_def
          cleanup_net_log w Let_def)
qed

theorem upload_name_encoding_witness:
  "Upload (upload_request_of kb0 named_args ''./example.pdf'' ''example.pdf'')
     \<in> set (drop (length (net_log w0))
              (net_log (snd (create_file_collection kb0 (upload_env (JObj [(''data'', JStr ''c1'')])) named_args w0))))
   \<and> up_filename (upload_request_of kb0 named_args ''./example.pdf'' ''example.pdf'') = ''my%20file%2F1.pdf''
   \<and> unquote_to_bytes ''my%20file%2F1.pdf'' = ''my file/1.pdf''"
proof -
  have w: "net_log w0 = []" by (simp add: w0_def)
  have m: "Upload (upload_request_of kb0 named_args ''./example.pdf'' ''example.pdf'')
     \<in> set (drop (length (net_log w0))
              (net_log (snd (create_file_collection kb0 (upload_env (JObj [(''data'', JStr ''c1'')])) named_args w0))))"
    by (simp add: named_upload_log w)
  have n: "name_opt named_args = Some ''my file/1.pdf''"
    by (simp add: named_args_def)
  have q: "quote [] ''my file/1.pdf'' = ''my%20file%2F1.pdf''"
    by (simp add: quote_def always_safe_def percent_def hex_digit_def char_eval Let_def)
  from upload_name_encoding [of kb0 "upload_env (JObj [(''data'', JStr ''c1'')])" named_args w0] m
  obtain filename where
    "up_filename (upload_request_of kb0 named_args ''./example.pdf'' ''example.pdf'')
       = quote [] (case name_opt named_args of None \<Rightarrow> filename | Some n \<Rightarrow> if n = [] then filename else n)"
    and "unquote_to_bytes (up_filename (upload_request_of kb0 named_args ''./example.pdf'' ''example.pdf''))
       = (case name_opt named_args of None \<Rightarrow> filename | Some n \<Rightarrow> if n = [] then filename else n)"
    by blast
  then show ?thesis using m by (simp add: n q)
qed

subsection \<open>File ingestion: the temporary file\<close>

text \<open>
  The upload touches no file, no part of the body of the \<open>try\<close> consults \<open>os.unlink\<close>,
  and a URL whose download and staging succeed leaves the branch with the temporary
  file on disk and its path in \<open>temp_file_path\<close>.
\<close>

lemma upload_files: "files (snd (upload kb ev a p fn w)) = files w"
  by (simp add: upload_def Let_def split: sum.splits option.splits)

lemma try_ignores_unlink:
  "create_file_collection_try kb (ev\<lparr>os_unlink := u\<rparr>) a w = create_file_collection_try kb ev a w"
proof -
  have lib: "urlparse_path (ev\<lparr>os_unlink := u\<rparr>) = urlparse_path ev"
    "unquote (ev\<lparr>os_unlink := u\<rparr>) = unquote ev"
    "file_ext_of (ev\<lparr>os_unlink := u\<rparr>) = file_ext_of ev"
    by (simp_all add: fun_eq_iff urlparse_path_def unquote_def file_ext_of_def lower_def Let_def)
  have au: "acquire_url (ev\<lparr>os_unlink := u\<rparr>) = acquire_url ev"
    by (simp add: fun_eq_iff acquire_url_def lib unsupported_format_def Let_def
          split: sum.splits option.splits)
  have al: "acquire_local (ev\<lparr>os_unlink := u\<rparr>) = acquire_local ev"
    by (simp add: fun_eq_iff acquire_local_def lib unsupported_format_def Let_def)
  have up: "upload kb (ev\<lparr>os_unlink := u\<rparr>) = upload kb ev"
    by (simp add: fun_eq_iff upload_def Let_def split: sum.splits option.splits)
  show ?thesis
    unfolding create_file_collection_try_def au al up by simp
qed

lemma staged_url:
  assumes "urlparse_path ev fp = Inr path"
    and "file_ext_of ev (basename (unquote ev path)) = ext" and "ext \<in> ALLOWED_EXTENSIONS"
    and "requests_get ev fp = Inr response"
    and "raise_for_status response = None"
    and "named_temporary_file ev (CHR ''.'' # ext) = Inr stem"
    and "tmp_write ev (stem @ CHR ''.'' # ext) (content response) = None"
  shows "acquire_url ev fp w =
     (Inr (stem @ CHR ''.'' # ext, basename (unquote ev path)), Some (stem @ CHR ''.'' # ext),
      w\<lparr>net_log := net_log w @ [Download fp], files := insert (stem @ CHR ''.'' # ext) (files w)\<rparr>)"
  using assms by (simp add: acquire_url_def Let_def)

text \<open>
  Claim C1, as amended. For a URL source whose download succeeds and whose bytes are
  staged (the temporary file is created and written): the file exists when the body of
  the call ends; when the call returns, with a collection id or with an error, the file
  no longer exists provided its deletion did not fail; the result of the call is the
  same whatever the deletion does, so a failure of the deletion is never handed to the
  caller; and no other path is created or removed.
\<close>

theorem temp_file_cleanup:
  assumes "is_url (file_path a)"
    and "urlparse_path ev (file_path a) = Inr path"
    and "file_ext_of ev (basename (unquote ev path)) = ext" and "ext \<in> ALLOWED_EXTENSIONS"
    and "requests_get ev (file_path a) = Inr response"
    and "raise_for_status response = None"
    and "named_temporary_file ev (CHR ''.'' # ext) = Inr stem"
    and "tmp_write ev (stem @ CHR ''.'' # ext) (content response) = None"
  shows "stem @ CHR ''.'' # ext \<in> files (snd (snd (create_file_collection_try kb ev a w)))
       \<and> (os_unlink ev (stem @ CHR ''.'' # ext) = None
            \<longrightarrow> stem @ CHR ''.'' # ext \<notin> files (snd (create_file_collection kb ev a w)))
       \<and> fst (create_file_collection kb (ev\<lparr>os_unlink := u\<rparr>) a w)
           = fst (create_file_collection kb ev a w)
       \<and> files (snd (create_file_collection kb ev a w)) - {stem @ CHR ''.'' # ext}
           = files w - {stem @ CHR ''.'' # ext}"
proof -
  let ?tmp = "stem @ CHR ''.'' # ext"
  let ?w1 = "w\<lparr>net_log := net_log w @ [Download (file_path a)], files := insert ?tmp (files w)\<rparr>"
  let ?fn = "basename (unquote ev path)"
  have acq: "acquire_url ev (file_path a) w = (Inr (?tmp, ?fn), Some ?tmp, ?w1)"
    using assms(2-8) by (rule staged_url)
  have t: "create_file_collection_try kb ev a w
           = (fst (upload kb ev a ?tmp ?fn ?w1), Some ?tmp, snd (upload kb ev a ?tmp ?fn ?w1))"
    using assms(1) acq by (simp add: create_file_collection_try_def split: prod.splits)
  have f: "files (snd (upload kb ev a ?tmp ?fn ?w1)) = insert ?tmp (files w)"
    by (simp add: upload_files)
  have c: "snd (create_file_collection kb ev a w)
           = cleanup ev (Some ?tmp) (snd (upload kb ev a ?tmp ?fn ?w1))"
    by (simp add: create_file_collection_def t)
  have 1: "?tmp \<in> files (snd (snd (create_file_collection_try kb ev a w)))"
    by (simp add: t f)
  have 2: "os_unlink ev ?tmp = None \<longrightarrow> ?tmp \<notin> files (snd (create_file_collection kb ev a w))"
    by (simp add: c cleanup_def f)
  have 3: "fst (create_file_collection kb (ev\<lparr>os_unlink := u\<rparr>) a w)
           = fst (create_file_collection kb ev a w)"
    by (simp add: create_file_collection_def try_ignores_unlink split: prod.splits)
  have 4: "files (snd (create_file_collection kb ev a w)) - {?tmp} = files w - {?tmp}"
    by (auto simp add: c cleanup_def f split: option.splits)
  from 1 2 3 4 show ?thesis by blast
qed

text \<open>The source reference \<open>https://example.com/document.pdf\<close>.\<close>

lemma pdf_url: "is_url (file_path url_args)"
  by (simp add: url_args_def file_defaults_def is_url_def)

lemma pdf_path: "urlparse_path ev (file_path url_args) = Inr ''/document.pdf''"
  by (simp add: url_args_def file_defaults_def urlparse_path_def strip_unsafe_def host_char_def
        split_params_def after_last_def is_ascii_def Let_def)

lemma pdf_ext: "file_ext_of ev (basename (unquote ev ''/document.pdf'')) = ''pdf''"
  by (simp add: file_ext_of_def unquote_def basename_def after_last_def lower_def is_ascii_def
        lower_char_def char_eval)

lemma pdf_allowed: "''pdf'' \<in> ALLOWED_EXTENSIONS"
  by (simp add: ALLOWED_EXTENSIONS_def)

lemma download_ok: "raise_for_status download_response = None"
  by (simp add: raise_for_status_def download_response_def)

text \<open>The theorem at the second call of the example script.\<close>

theorem temp_file_cleanup_witness:
  "''/tmp/tmpk3v9.pdf'' \<in> files (snd (snd (create_file_collection_try kb0 env_ok url_args w0)))
   \<and> ''/tmp/tmpk3v9.pdf'' \<notin> files (snd (create_file_collection kb0 env_ok url_args w0))
   \<and> fst (create_file_collection kb0 env_unlink_fails url_args w0)
       = fst (create_file_collection kb0 env_ok url_args w0)"
proof -
  have g: "requests_get env_ok (file_path url_args) = Inr download_response"
    by (simp add: env_ok_def upload_env_def base_env_def)
  have n: "named_temporary_file env_ok (CHR ''.'' # ''pdf'') = Inr ''/tmp/tmpk3v9''"
    by (simp add: env_ok_def upload_env_def base_env_def)
  have wr: "tmp_write env_ok (''/tmp/tmpk3v9'' @ CHR ''.'' # ''pdf'') (content download_response) = None"
    by (simp add: env_ok_def upload_env_def base_env_def)
  have u: "os_unlink env_ok ''/tmp/tmpk3v9.pdf'' = None"
    by (simp add: env_ok_def upload_env_def base_env_def)
  show ?thesis
    using temp_file_cleanup [OF pdf_url pdf_path pdf_ext pdf_allowed g download_ok n wr,
        of kb0 w0 "\<lambda>p. Some (LibError ''Permission denied'')"] u
    by (simp add: env_unlink_fails_def)
qed

text \<open>
  Claim C1 as it is stated fails: when \<open>os.unlink\<close> raises, line 493 passes over the
  exception, the call returns the collection id, and the temporary file is still on
  disk.
\<close>

theorem temp_file_remains_counterexample:
  "fst (create_file_collection kb0 env_unlink_fails url_args w0) = Inr (JStr ''c1'')
   \<and> ''/tmp/tmpk3v9.pdf'' \<notin> files w0
   \<and> ''/tmp/tmpk3v9.pdf'' \<in> files (snd (create_file_collection kb0 env_unlink_fails url_args w0))"
proof -
  have g: "requests_get env_unlink_fails (file_path url_args) = Inr download_response"
    by (simp add: env_unlink_fails_def env_ok_def upload_env_def base_env_def)
  have n: "named_temporary_file env_unlink_fails (CHR ''.'' # ''pdf'') = Inr ''/tmp/tmpk3v9''"
    by (simp add: env_unlink_fails_def env_ok_def upload_env_def base_env_def)
  have wr: "tmp_write env_unlink_fails (''/tmp/tmpk3v9'' @ CHR ''.'' # ''pdf'') (content download_response) = None"
    by (simp add: env_unlink_fails_def env_ok_def upload_env_def base_env_def)
  have acq: "acquire_url env_unlink_fails (file_path url_args) w0 =
     (Inr (''/tmp/tmpk3v9'' @ CHR ''.'' # ''pdf'', basename (unquote env_unlink_fails ''/document.pdf'')),
      Some (''/tmp/tmpk3v9'' @ CHR ''.'' # ''pdf''),
      w0\<lparr>net_log := net_log w0 @ [Download (file_path url_args)],
         files := insert (''/tmp/tmpk3v9'' @ CHR ''.'' # ''pdf'') (files w0)\<rparr>)"
    by (rule staged_url [OF pdf_path pdf_ext pdf_allowed g download_ok n wr])
  have o: "open_rb env_unlink_fails p = None" for p
    by (simp add: env_unlink_fails_def env_ok_def upload_env_def base_env_def)
  have p: "requests_post env_unlink_fails rq
           = Inr (service_response 200 ''OK'' (JObj [(''code'', JInt 200), (''data'', JStr ''c1'')]))" for rq
    by (simp add: env_unlink_fails_def env_ok_def upload_env_def base_env_def)
  have ul: "os_unlink env_unlink_fails q = Some (LibError ''Permission denied'')" for q
    by (simp add: env_unlink_fails_def)
  have r: "raise_for_status (service_response 200 ''OK'' b) = None" for b
    by (simp add: raise_for_status_def service_response_def)
  have j: "json_result (service_response 200 ''OK'' b) = Inr b" for b
    by (simp add: service_response_def)
  show ?thesis
    unfolding create_file_collection_def create_file_collection_try_def if_P [OF pdf_url] acq
    by (simp add: upload_def o p r j ul collection_id_of_def subscript_def cleanup_def w0_def Let_def)
qed

text \<open>
  Outside the amended claim: when the write of line 412 raises, \<open>temp_file_path\<close> has not
  been assigned yet (line 413), so the \<open>finally\<close> clause deletes nothing and the file
  that \<open>NamedTemporaryFile\<close> created stays on disk.
\<close>

lemma write_failure_leaks:
  "fst (create_file_collection kb0 env_write_fails url_args w0)
     = Inl (Exception ''File Upload Failed: No space left on device'')
   \<and> ''/tmp/tmpk3v9.pdf'' \<notin> files w0
   \<and> ''/tmp/tmpk3v9.pdf'' \<in> files (snd (create_file_collection kb0 env_write_fails url_args w0))"
proof -
  have e: "requests_get env_write_fails u = Inr download_response"
       "named_temporary_file env_write_fails sfx = Inr ''/tmp/tmpk3v9''"
       "tmp_write env_write_fails q c = Some (LibError ''No space left on device'')" for u sfx q c
    by (simp_all add: env_write_fails_def env_ok_def upload_env_def base_env_def)
  have acq: "acquire_url env_write_fails (file_path url_args) w0 =
     (Inl (LibError ''No space left on device''), None,
      w0\<lparr>net_log := net_log w0 @ [Download (file_path url_args)],
         files := insert ''/tmp/tmpk3v9.pdf'' (files w0)\<rparr>)"
    by (simp add: acquire_url_def pdf_path pdf_ext pdf_allowed e download_ok Let_def)
  show ?thesis
    unfolding create_file_collection_def create_file_collection_try_def if_P [OF pdf_url] acq
    by (simp add: cleanup_def w0_def)
qed

end
